theory Spec2Isabelle
  imports Complex_Main
begin

section \<open>Frustum proposals: the calibrated transform chain of \<open>models/frustum_proposal.py\<close>\<close>

text \<open>
  The module holds one class, \<open>FrustumProposal\<close>, built from three calibration buffers
  (\<open>P\<close>, \<open>Tr_velo_to_cam\<close>, \<open>R0_rect\<close>). Its methods move point arrays between the
  velodyne (sensor), reference-camera, rectified-camera and image frames, filter points by
  their image projection, and gather one point subset per 2D box.

  Numbers are modelled in exact arithmetic: every array entry is a \<^typ>\<open>real\<close>. The one
  place where finite inputs produce a non-finite float is the perspective divide of
  \<open>_project_rect_to_image\<close> (numpy divides by zero without raising), so image coordinates
  carry the IEEE special values explicitly. A 2D array is the list of its rows.
\<close>

subsection \<open>Exceptions\<close>

datatype error =
    AssertionError          \<comment> \<open>the \<open>assert\<close> of \<open>__init__\<close>\<close>
  | KeyError string         \<comment> \<open>\<open>calibs[k]\<close> on a missing key\<close>
  | ValueError              \<comment> \<open>\<open>np.reshape\<close> on a buffer of the wrong size\<close>
  | LinAlgError             \<comment> \<open>\<open>np.linalg.inv\<close> on a singular matrix\<close>

text \<open>Sequencing: a statement that raised ends the computation with its exception.\<close>

definition raising :: "error + 'a \<Rightarrow> ('a \<Rightarrow> error + 'b) \<Rightarrow> error + 'b" where
  "raising r f = (case r of Inl e \<Rightarrow> Inl e | Inr x \<Rightarrow> f x)"

subsection \<open>The numpy operations the module uses\<close>

type_synonym vec = "real list"
type_synonym mat = "real list list"

text \<open>\<open>np.reshape(buf, [r, c])\<close>: row-major; raises when the element count is not \<open>r * c\<close>.\<close>

definition np_reshape :: "real list \<Rightarrow> nat \<Rightarrow> nat \<Rightarrow> error + mat" where
  "np_reshape buf r c =
     (if length buf = r * c then Inr (map (\<lambda>i. take c (drop (i * c) buf)) [0..<r])
      else Inl ValueError)"

definition ncols :: "'a list list \<Rightarrow> nat" where
  "ncols M = (case M of [] \<Rightarrow> 0 | r # _ \<Rightarrow> length r)"

text \<open>
  \<open>np.transpose\<close> of a 2D array. An array without rows is the empty list whatever its
  column count, so is its transpose; the products below treat it as an array without
  columns, which is what numpy computes from the (k, 0) array.
\<close>

definition np_transpose :: "'a list list \<Rightarrow> 'a list list" where
  "np_transpose M = map (\<lambda>j. map (\<lambda>r. r ! j) M) [0..<ncols M]"

definition dotv :: "vec \<Rightarrow> vec \<Rightarrow> real" where
  "dotv x y = sum_list (map2 (*) x y)"

text \<open>\<open>np.dot\<close> of two 2D arrays: entry (i, j) is row i of the first times column j of the second.\<close>

definition np_dot :: "mat \<Rightarrow> mat \<Rightarrow> mat" where
  "np_dot A B = map (\<lambda>a. map (\<lambda>c. dotv a c) (np_transpose B)) A"

text \<open>\<open>np.dot\<close> of a 2D array and a 1D array.\<close>

definition np_dot_mv :: "mat \<Rightarrow> vec \<Rightarrow> vec" where
  "np_dot_mv A v = map (\<lambda>a. dotv a v) A"

definition np_neg :: "mat \<Rightarrow> mat" where
  "np_neg A = map (map uminus) A"

text \<open>Boolean-mask row selection \<open>a[inds, :]\<close>: the rows whose mask entry is true, in order.\<close>

definition np_select :: "'a list \<Rightarrow> bool list \<Rightarrow> 'a list" where
  "np_select a inds = map fst (filter snd (zip a inds))"

text \<open>
  \<open>np.linalg.inv\<close> of a 3 by 3 matrix in exact arithmetic: the adjugate over the
  determinant, and \<open>LinAlgError\<close> for a singular matrix (and for an array that is not
  square). \<open>R0\<close> is the only matrix the module inverts, and it is 3 by 3.
\<close>

fun det3 :: "mat \<Rightarrow> real" where
  "det3 [[a, b, c], [d, e, f], [g, h, i]] =
     a * (e * i - f * h) - b * (d * i - f * g) + c * (d * h - e * g)"
| "det3 _ = 0"

fun np_linalg_inv :: "mat \<Rightarrow> error + mat" where
  "np_linalg_inv [[a, b, c], [d, e, f], [g, h, i]] =
     (let dt = det3 [[a, b, c], [d, e, f], [g, h, i]] in
      if dt = 0 then Inl LinAlgError
      else Inr [[(e * i - f * h) / dt, (c * h - b * i) / dt, (b * f - c * e) / dt],
                [(f * g - d * i) / dt, (a * i - c * g) / dt, (c * d - a * f) / dt],
                [(d * h - e * g) / dt, (b * g - a * h) / dt, (a * e - b * d) / dt]])"
| "np_linalg_inv _ = Inl LinAlgError"

text \<open>
  A float64 quotient. numpy's division by zero does not raise: it yields an infinity with
  the sign of the numerator, or NaN for 0/0 (the exact zero is taken as +0).
\<close>

datatype fl = Fin real | PInf | NInf | NaN

definition fl_div :: "real \<Rightarrow> real \<Rightarrow> fl" where
  "fl_div x d =
     (if d \<noteq> 0 then Fin (x / d)
      else if 0 < x then PInf else if x < 0 then NInf else NaN)"

text \<open>The comparisons \<open>v < b\<close> and \<open>v >= b\<close> of a float with a finite bound; NaN compares false.\<close>

definition fl_lt :: "fl \<Rightarrow> real \<Rightarrow> bool" where
  "fl_lt v b = (case v of Fin x \<Rightarrow> x < b | NInf \<Rightarrow> True | PInf \<Rightarrow> False | NaN \<Rightarrow> False)"

definition fl_ge :: "fl \<Rightarrow> real \<Rightarrow> bool" where
  "fl_ge v b = (case v of Fin x \<Rightarrow> b \<le> x | PInf \<Rightarrow> True | NInf \<Rightarrow> False | NaN \<Rightarrow> False)"

subsection \<open>Construction\<close>

record FrustumProposal =
  P :: mat
  V2C :: mat
  C2V :: mat
  R0 :: mat

text \<open>
  \<open>inverse_rigid_trans\<close>: \<open>inv_Tr\<close> starts as zeros of the shape of \<open>Tr\<close> (3 by 4); its
  left 3 by 3 block receives the transposed rotation block and its last column the
  product of the negated transposed block with the translation column.
\<close>

definition inverse_rigid_trans :: "mat \<Rightarrow> mat" where
  "inverse_rigid_trans Tr =
     (let R = map (take 3) (take 3 Tr);
          t = map (\<lambda>r. r ! 3) (take 3 Tr)
      in map2 (\<lambda>r x. r @ [x]) (np_transpose R) (np_dot_mv (np_neg (np_transpose R)) t))"

text \<open>\<open>calibs[k]\<close> on a dict.\<close>

definition py_getitem :: "(string \<rightharpoonup> 'a) \<Rightarrow> string \<Rightarrow> error + 'a" where
  "py_getitem d k = (case d k of None \<Rightarrow> Inl (KeyError k) | Some v \<Rightarrow> Inr v)"

text \<open>
  The asserted expression \<open>'P' and 'Tr_velo_to_cam' and 'R0_rect' in calibs\<close>: \<open>in\<close> binds
  tighter than \<open>and\<close>, and \<open>x and y\<close> is \<open>x\<close> when \<open>x\<close> is falsy (an empty string) and
  \<open>y\<close> otherwise.
\<close>

definition py_truthy_str :: "string \<Rightarrow> bool" where
  "py_truthy_str s = (s \<noteq> [])"

definition init_assertion :: "(string \<rightharpoonup> real list) \<Rightarrow> bool" where
  "init_assertion calibs =
     (if \<not> py_truthy_str ''P'' then False
      else if \<not> py_truthy_str ''Tr_velo_to_cam'' then False
      else calibs ''R0_rect'' \<noteq> None)"

definition FrustumProposal_init :: "(string \<rightharpoonup> real list) \<Rightarrow> error + FrustumProposal" where
  "FrustumProposal_init calibs =
     (if \<not> init_assertion calibs then Inl AssertionError else
      raising (py_getitem calibs ''P'') (\<lambda>p.
      raising (np_reshape p 3 4) (\<lambda>Pm.
      raising (py_getitem calibs ''Tr_velo_to_cam'') (\<lambda>v.
      raising (np_reshape v 3 4) (\<lambda>Vm.
      let Cm = inverse_rigid_trans Vm in
      raising (py_getitem calibs ''R0_rect'') (\<lambda>r.
      raising (np_reshape r 3 3) (\<lambda>Rm.
      Inr \<lparr>P = Pm, V2C = Vm, C2V = Cm, R0 = Rm\<rparr>)))))))"

subsection \<open>Frame-to-frame conversions\<close>

definition cart2hom :: "mat \<Rightarrow> mat" where
  "cart2hom pts_3d = map (\<lambda>p. p @ [1]) pts_3d"

definition project_velo_to_ref :: "FrustumProposal \<Rightarrow> mat \<Rightarrow> mat" where
  "project_velo_to_ref self pts_3d_velo =
     np_dot (cart2hom pts_3d_velo) (np_transpose (V2C self))"

definition project_ref_to_velo :: "FrustumProposal \<Rightarrow> mat \<Rightarrow> mat" where
  "project_ref_to_velo self pts_3d_ref =
     np_dot (cart2hom pts_3d_ref) (np_transpose (C2V self))"

definition project_rect_to_ref :: "FrustumProposal \<Rightarrow> mat \<Rightarrow> error + mat" where
  "project_rect_to_ref self pts_3d_rect =
     raising (np_linalg_inv (R0 self)) (\<lambda>Ri.
       Inr (np_transpose (np_dot Ri (np_transpose pts_3d_rect))))"

definition project_ref_to_rect :: "FrustumProposal \<Rightarrow> mat \<Rightarrow> mat" where
  "project_ref_to_rect self pts_3d_ref =
     np_transpose (np_dot (R0 self) (np_transpose pts_3d_ref))"

definition project_rect_to_velo :: "FrustumProposal \<Rightarrow> mat \<Rightarrow> error + mat" where
  "project_rect_to_velo self pts_3d_rect =
     raising (project_rect_to_ref self pts_3d_rect) (\<lambda>pts_3d_ref.
       Inr (project_ref_to_velo self pts_3d_ref))"

definition project_velo_to_rect :: "FrustumProposal \<Rightarrow> mat \<Rightarrow> mat" where
  "project_velo_to_rect self pts_3d_velo =
     project_ref_to_rect self (project_velo_to_ref self pts_3d_velo)"

text \<open>
  \<open>_project_rect_to_image\<close>: the first two columns of the homogeneous image coordinates,
  each divided in place by the third column, which stays as computed.
\<close>

definition project_rect_to_image :: "FrustumProposal \<Rightarrow> mat \<Rightarrow> fl list list" where
  "project_rect_to_image self pts_3d_rect =
     (let pts_2d = np_dot (cart2hom pts_3d_rect) (np_transpose (P self))
      in map (\<lambda>r. [fl_div (r ! 0) (r ! 2), fl_div (r ! 1) (r ! 2)]) pts_2d)"

definition project_velo_to_image :: "FrustumProposal \<Rightarrow> mat \<Rightarrow> fl list list" where
  "project_velo_to_image self pts_3d_velo =
     project_rect_to_image self (project_velo_to_rect self pts_3d_velo)"

subsection \<open>Field-of-view filter\<close>

text \<open>
  The mask expression shared by the filter and the per-box loop:
  \<open>(c[:, 0] < xmax) & (c[:, 0] >= xmin) & (c[:, 1] < ymax) & (c[:, 1] >= ymin)\<close>.
\<close>

definition box_test :: "fl list \<Rightarrow> real \<Rightarrow> real \<Rightarrow> real \<Rightarrow> real \<Rightarrow> bool" where
  "box_test c xmin ymin xmax ymax =
     (fl_lt (c ! 0) xmax \<and> fl_ge (c ! 0) xmin \<and> fl_lt (c ! 1) ymax \<and> fl_ge (c ! 1) ymin)"

text \<open>
  \<open>_get_lidar_in_image_fov\<close> returns the filtered rows alone, or with \<open>return_more\<close> the
  triple of filtered rows, projections and mask.
\<close>

datatype fov_result =
    Fov mat
  | FovMore mat "fl list list" "bool list"

definition get_lidar_in_image_fov ::
  "FrustumProposal \<Rightarrow> mat \<Rightarrow> real \<Rightarrow> real \<Rightarrow> real \<Rightarrow> real \<Rightarrow> bool \<Rightarrow> real \<Rightarrow> fov_result" where
  "get_lidar_in_image_fov self pc_velo xmin ymin xmax ymax return_more clip_distance =
     (let pts_2d = project_velo_to_image self pc_velo;
          fov_inds = map (\<lambda>c. box_test c xmin ymin xmax ymax) pts_2d;
          fov_inds = map2 (\<and>) fov_inds (map (\<lambda>p. clip_distance < p ! 0) pc_velo);
          imgfov_pc_velo = np_select pc_velo fov_inds
      in if return_more then FovMore imgfov_pc_velo pts_2d fov_inds
         else Fov imgfov_pc_velo)"

text \<open>The default arguments \<open>return_more=False, clip_distance=2.0\<close>.\<close>

definition get_lidar_in_image_fov_default ::
  "FrustumProposal \<Rightarrow> mat \<Rightarrow> real \<Rightarrow> real \<Rightarrow> real \<Rightarrow> real \<Rightarrow> fov_result" where
  "get_lidar_in_image_fov_default self pc_velo xmin ymin xmax ymax =
     get_lidar_in_image_fov self pc_velo xmin ymin xmax ymax False 2"

subsection \<open>Frustum extraction\<close>

type_synonym box2d = "real \<times> real \<times> real \<times> real"

text \<open>
  The mask of one box (lines 149 to 154): the box test on the projections computed once
  for the whole image, and the whole-image mask.
\<close>

definition box_fov_inds_of :: "fl list list \<Rightarrow> bool list \<Rightarrow> box2d \<Rightarrow> bool list" where
  "box_fov_inds_of pc_image_coord img_fov_inds box =
     (case box of (xmin, ymin, xmax, ymax) \<Rightarrow>
        map2 (\<and>) (map (\<lambda>c. box_test c xmin ymin xmax ymax) pc_image_coord) img_fov_inds)"

text \<open>
  \<open>pc_in_velo_fov\<close> (lines 157 to 159): zeros of the shape of \<open>pc_in_box_fov\<close>, whose
  first three columns receive the sensor-frame coordinates of the gathered rows and whose
  fourth column is copied from them.
\<close>

definition pc_in_velo_fov_of :: "FrustumProposal \<Rightarrow> mat \<Rightarrow> error + mat" where
  "pc_in_velo_fov_of self pc_in_box_fov =
     raising (project_rect_to_velo self (map (take 3) pc_in_box_fov)) (\<lambda>velo.
       Inr (map2 (\<lambda>v r. v @ [r ! 3]) velo pc_in_box_fov))"

text \<open>One iteration of the loop over the boxes: the pair appended to the two output lists.\<close>

definition frustum_for_box ::
  "FrustumProposal \<Rightarrow> mat \<Rightarrow> fl list list \<Rightarrow> bool list \<Rightarrow> box2d \<Rightarrow> error + (mat \<times> mat)" where
  "frustum_for_box self pc_rect pc_image_coord img_fov_inds box =
     (let pc_in_box_fov = np_select pc_rect (box_fov_inds_of pc_image_coord img_fov_inds box)
      in raising (pc_in_velo_fov_of self pc_in_box_fov) (\<lambda>pc_in_velo_fov.
           Inr (pc_in_box_fov, pc_in_velo_fov)))"

fun frustum_loop ::
  "FrustumProposal \<Rightarrow> mat \<Rightarrow> fl list list \<Rightarrow> bool list \<Rightarrow> box2d list \<Rightarrow>
     mat list \<Rightarrow> mat list \<Rightarrow> error + (mat list \<times> mat list)" where
  "frustum_loop self pc_rect coord inds [] props props_velo = Inr (props, props_velo)"
| "frustum_loop self pc_rect coord inds (box # boxes) props props_velo =
     raising (frustum_for_box self pc_rect coord inds box) (\<lambda>(r, v).
       frustum_loop self pc_rect coord inds boxes (props @ [r]) (props_velo @ [v]))"

text \<open>
  \<open>pc_rect\<close> (lines 144 to 146): zeros of the shape of \<open>pc_velo\<close>, whose first three
  columns receive the rectified coordinates and whose fourth column is copied from
  \<open>pc_velo\<close>.
\<close>

definition pc_rect_of :: "FrustumProposal \<Rightarrow> mat \<Rightarrow> mat" where
  "pc_rect_of self pc_velo =
     map2 (\<lambda>r p. r @ [p ! 3]) (project_velo_to_rect self (map (take 3) pc_velo)) pc_velo"

text \<open>
  \<open>get_frustum_proposal\<close>. The calls to \<open>print\<close> are left out. The whole-image filter is
  called with \<open>return_more=True\<close> and the default clip distance, and its triple is
  unpacked.
\<close>

definition get_frustum_proposal ::
  "FrustumProposal \<Rightarrow> int \<times> int \<times> int \<Rightarrow> box2d list \<Rightarrow> mat \<Rightarrow> error + (mat list \<times> mat list)" where
  "get_frustum_proposal self img_shape boxes2d pc_velo =
     (case img_shape of (img_height, img_width, _) \<Rightarrow>
        (case get_lidar_in_image_fov self (map (take 3) pc_velo) 0 0
                (real_of_int img_width) (real_of_int img_height) True 2 of
           FovMore _ pc_image_coord img_fov_inds \<Rightarrow>
             frustum_loop self (pc_rect_of self pc_velo) pc_image_coord img_fov_inds
               boxes2d [] []
         | Fov _ \<Rightarrow> Inl ValueError))"

subsection \<open>Rigid transforms\<close>

text \<open>
  The rotation block \<open>Tr[0:3, 0:3]\<close> of a 3 by 4 transform, and what makes the transform
  rigid: the block is orthonormal, its transpose times itself is the identity.
\<close>

definition rotation_block :: "mat \<Rightarrow> mat" where
  "rotation_block Tr = map (take 3) (take 3 Tr)"

definition identity3 :: mat where
  "identity3 = [[1, 0, 0], [0, 1, 0], [0, 0, 1]]"

definition rigid :: "mat \<Rightarrow> bool" where
  "rigid Tr = (np_dot (np_transpose (rotation_block Tr)) (rotation_block Tr) = identity3)"

subsection \<open>A calibration with a non-trivial rotation\<close>

text \<open>
  A calibration in the manner of KITTI: the camera looks along the sensor's forward axis
  (camera z is sensor x, camera x is minus sensor y, camera y is minus sensor z), with a
  translation, a rectification that scales depth, and a projection with focal length 2
  and principal point (1, 1).
\<close>

definition example_calibs :: "string \<rightharpoonup> real list" where
  "example_calibs =
     [''P'' \<mapsto> [2, 0, 1, 0, 0, 2, 1, 0, 0, 0, 1, 0],
      ''Tr_velo_to_cam'' \<mapsto> [0, -1, 0, 1, 0, 0, -1, 2, 1, 0, 0, 3],
      ''R0_rect'' \<mapsto> [1, 0, 0, 0, 1, 0, 0, 0, 2]]"

definition example_engine :: FrustumProposal where
  "example_engine =
     \<lparr>P = [[2, 0, 1, 0], [0, 2, 1, 0], [0, 0, 1, 0]],
      V2C = [[0, -1, 0, 1], [0, 0, -1, 2], [1, 0, 0, 3]],
      C2V = [[0, 0, 1, -3], [-1, 0, 0, 1], [0, -1, 0, 2]],
      R0 = [[1, 0, 0], [0, 1, 0], [0, 0, 2]]\<rparr>"

subsection \<open>The identity-calibration scenario\<close>

text \<open>
  The calibration of the scenario: \<open>P\<close> and \<open>Tr_velo_to_cam\<close> are the 3 by 4 matrix
  with the identity in its left block, \<open>R0_rect\<close> is the 3 by 3 identity.
\<close>

definition scenario_calibs :: "string \<rightharpoonup> real list" where
  "scenario_calibs =
     [''P'' \<mapsto> [1, 0, 0, 0, 0, 1, 0, 0, 0, 0, 1, 0],
      ''Tr_velo_to_cam'' \<mapsto> [1, 0, 0, 0, 0, 1, 0, 0, 0, 0, 1, 0],
      ''R0_rect'' \<mapsto> [1, 0, 0, 0, 1, 0, 0, 0, 1]]"

definition scenario_run :: "box2d list \<Rightarrow> mat \<Rightarrow> error + (mat list \<times> mat list)" where
  "scenario_run boxes2d pc_velo =
     raising (FrustumProposal_init scenario_calibs)
       (\<lambda>self. get_frustum_proposal self (100, 100, 3) boxes2d pc_velo)"

subsection \<open>Indices kept by a mask\<close>

text \<open>\<open>np.nonzero\<close> of a boolean mask: the indices of its true entries, ascending.\<close>

definition np_nonzero :: "bool list \<Rightarrow> nat list" where
  "np_nonzero inds = filter (\<lambda>k. inds ! k) [0..<length inds]"

subsection \<open>A point cloud and two boxes for the example calibration\<close>

definition example_cloud :: mat where
  "example_cloud = [[2, 1, 0, 9], [5, 1, 0, 8], [6, -1, 0, 7]]"

definition example_boxes :: "box2d list" where
  "example_boxes = [(0, 0, 4, 4), (6 / 5, 0, 4, 4)]"

subsection \<open>Calibrations with a missing or mis-sized buffer\<close>

text \<open>
  A buffer is well-formed when its key is present and it holds the expected number of
  values. The two calibrations below take the scenario's and shorten \<open>P\<close> to 11 values;
  the second one also lacks \<open>Tr_velo_to_cam\<close>.
\<close>

definition buffer_ok :: "(string \<rightharpoonup> real list) \<Rightarrow> string \<Rightarrow> nat \<Rightarrow> bool" where
  "buffer_ok calibs k n = (case calibs k of None \<Rightarrow> False | Some buf \<Rightarrow> length buf = n)"

definition short_P_calibs :: "string \<rightharpoonup> real list" where
  "short_P_calibs = scenario_calibs(''P'' \<mapsto> [1, 0, 0, 0, 0, 1, 0, 0, 0, 0, 1])"

definition short_P_no_Tr_calibs :: "string \<rightharpoonup> real list" where
  "short_P_no_Tr_calibs = short_P_calibs(''Tr_velo_to_cam'' := None)"

section \<open>Properties\<close>

subsection \<open>Evaluation helpers\<close>

lemmas np_defs =
  np_reshape_def ncols_def np_transpose_def dotv_def np_dot_def np_dot_mv_def np_neg_def
  np_select_def

lemmas init_defs =
  FrustumProposal_init_def init_assertion_def py_truthy_str_def py_getitem_def raising_def
  inverse_rigid_trans_def

lemmas project_defs =
  cart2hom_def project_velo_to_ref_def project_ref_to_velo_def project_rect_to_ref_def
  project_ref_to_rect_def project_rect_to_velo_def project_velo_to_rect_def
  project_rect_to_image_def project_velo_to_image_def

lemmas fov_defs =
  fl_div_def fl_lt_def fl_ge_def box_test_def get_lidar_in_image_fov_def
  box_fov_inds_of_def pc_in_velo_fov_of_def frustum_for_box_def pc_rect_of_def
  get_frustum_proposal_def

subsection \<open>Arrays: transposes and products row by row\<close>

lemma ncols_rect: "M \<noteq> [] \<Longrightarrow> \<forall>r\<in>set M. length r = c \<Longrightarrow> ncols M = c"
  by (cases M) (simp_all add: ncols_def)

lemma np_transpose_Nil: "np_transpose [] = []"
  by (simp add: np_transpose_def ncols_def)

lemma np_transpose_rect:
  "M \<noteq> [] \<Longrightarrow> \<forall>r\<in>set M. length r = c \<Longrightarrow>
   np_transpose M = map (\<lambda>j. map (\<lambda>r. r ! j) M) [0..<c]"
  using ncols_rect[of M c] by (simp add: np_transpose_def)

lemma np_transpose_twice:
  assumes "\<forall>r\<in>set M. length r = c" and "0 < c"
  shows "np_transpose (np_transpose M) = M"
proof (cases "M = []")
  case True
  then show ?thesis by (simp add: np_transpose_Nil)
next
  case False
  let ?T = "map (\<lambda>j. map (\<lambda>r. r ! j) M) [0..<c]"
  have T: "np_transpose M = ?T"
    using False assms(1) by (rule np_transpose_rect)
  have Tne: "?T \<noteq> []" using assms(2) by simp
  have Trows: "\<forall>r\<in>set ?T. length r = length M" by simp
  have "np_transpose ?T = map (\<lambda>i. map (\<lambda>r. r ! i) ?T) [0..<length M]"
    using Tne Trows by (rule np_transpose_rect)
  also have "\<dots> = map (\<lambda>i. M ! i) [0..<length M]"
  proof (rule map_cong[OF refl])
    fix i assume "i \<in> set [0..<length M]"
    then have i: "i < length M" by simp
    then have len: "length (M ! i) = c" using assms(1) by simp
    have "map (\<lambda>r. r ! i) ?T = map (\<lambda>j. M ! i ! j) [0..<c]"
      using i by simp
    also have "\<dots> = M ! i" using len map_nth[of "M ! i"] by simp
    finally show "map (\<lambda>r. r ! i) ?T = M ! i" .
  qed
  also have "\<dots> = M" by (rule map_nth)
  finally show ?thesis using T by simp
qed

lemma np_dot_transposed:
  "\<forall>r\<in>set M. length r = c \<Longrightarrow> 0 < c \<Longrightarrow>
   np_dot X (np_transpose M) = map (\<lambda>x. map (dotv x) M) X"
  using np_transpose_twice[of M c] by (simp add: np_dot_def)

lemma np_transpose_np_dot:
  assumes "R \<noteq> []" and "\<forall>p\<in>set pts. length p = c" and "0 < c"
  shows "np_transpose (np_dot R (np_transpose pts)) = map (\<lambda>p. map (\<lambda>a. dotv a p) R) pts"
proof -
  let ?D = "map (\<lambda>a. map (dotv a) pts) R"
  have D: "np_dot R (np_transpose pts) = ?D"
    using assms(2,3) by (rule np_dot_transposed)
  have Dne: "?D \<noteq> []" using assms(1) by simp
  have Drows: "\<forall>r\<in>set ?D. length r = length pts" by simp
  have "np_transpose ?D = map (\<lambda>j. map (\<lambda>r. r ! j) ?D) [0..<length pts]"
    using Dne Drows by (rule np_transpose_rect)
  also have "\<dots> = map (\<lambda>j. map (\<lambda>a. dotv a (pts ! j)) R) [0..<length pts]"
    by simp
  also have "\<dots> = map (\<lambda>p. map (\<lambda>a. dotv a p) R) (map (\<lambda>j. pts ! j) [0..<length pts])"
    by (simp add: comp_def)
  also have "\<dots> = map (\<lambda>p. map (\<lambda>a. dotv a p) R) pts"
    by (simp only: map_nth)
  finally show ?thesis using D by simp
qed

lemma len3: "length (p::'a list) = 3 \<Longrightarrow> \<exists>x y z. p = [x, y, z]"
  by (auto simp: numeral_eq_Suc length_Suc_conv)

lemma len4: "length (p::'a list) = 4 \<Longrightarrow> \<exists>x y z w. p = [x, y, z, w]"
  by (auto simp: numeral_eq_Suc length_Suc_conv)

lemma len9: "length (xs::'a list) = 9 \<Longrightarrow> \<exists>a b c d e f g h i. xs = [a,b,c,d,e,f,g,h,i]"
  by (auto simp: numeral_eq_Suc length_Suc_conv)

lemma len12: "length (xs::'a list) = 12 \<Longrightarrow> \<exists>a b c d e f g h i j k l. xs = [a,b,c,d,e,f,g,h,i,j,k,l]"
  by (auto simp: numeral_eq_Suc length_Suc_conv)

lemma np_reshape_3_4:
  "np_reshape buf 3 4 = Inr M \<Longrightarrow>
   \<exists>a b c d e f g h i j k l. M = [[a, b, c, d], [e, f, g, h], [i, j, k, l]]"
proof -
  assume h: "np_reshape buf 3 4 = Inr M"
  then have "length buf = 12" by (simp add: np_reshape_def split: if_splits)
  then have "\<exists>a b c d e f g h i j k l. buf = [a,b,c,d,e,f,g,h,i,j,k,l]"
    by (rule len12)
  then obtain a b c d e f g h' i j k l where "buf = [a,b,c,d,e,f,g,h',i,j,k,l]"
    by (elim exE) (rule that)
  with h show ?thesis by (auto simp: np_reshape_def upt_conv_Cons)
qed

lemma np_reshape_3_3:
  "np_reshape buf 3 3 = Inr M \<Longrightarrow>
   \<exists>a b c d e f g h i. M = [[a, b, c], [d, e, f], [g, h, i]]"
proof -
  assume h: "np_reshape buf 3 3 = Inr M"
  then have "length buf = 9" by (simp add: np_reshape_def split: if_splits)
  then have "\<exists>a b c d e f g h i. buf = [a,b,c,d,e,f,g,h,i]"
    by (rule len9)
  then obtain a b c d e f g h' i where "buf = [a,b,c,d,e,f,g,h',i]"
    by (elim exE) (rule that)
  with h show ?thesis by (auto simp: np_reshape_def upt_conv_Cons)
qed

lemma inverse_rigid_trans_3_4:
  "inverse_rigid_trans [[a, b, c, d], [e, f, g, h], [i, j, k, l]] =
     [[a, e, i, - a * d - e * h - i * l],
      [b, f, j, - b * d - f * h - j * l],
      [c, g, k, - c * d - g * h - k * l]]"
  by (simp add: inverse_rigid_trans_def np_transpose_def ncols_def np_dot_mv_def np_neg_def
      dotv_def upt_conv_Cons)

lemma init_shape:
  assumes "FrustumProposal_init calibs = Inr self"
  shows "\<exists>Pm Vm Rm. np_reshape (the (calibs ''P'')) 3 4 = Inr Pm \<and>
           np_reshape (the (calibs ''Tr_velo_to_cam'')) 3 4 = Inr Vm \<and>
           np_reshape (the (calibs ''R0_rect'')) 3 3 = Inr Rm \<and>
           self = \<lparr>P = Pm, V2C = Vm, C2V = inverse_rigid_trans Vm, R0 = Rm\<rparr>"
  using assms
  by (auto simp: FrustumProposal_init_def raising_def py_getitem_def Let_def
      split: if_splits option.splits sum.splits)

subsection \<open>The conversions row by row\<close>

lemma rigid_3_4:
  "rigid [[a, b, c, d], [e, f, g, h], [i, j, k, l]] \<longleftrightarrow>
     a * a + e * e + i * i = 1 \<and> a * b + e * f + i * j = 0 \<and> a * c + e * g + i * k = 0 \<and>
     b * a + f * e + j * i = 0 \<and> b * b + f * f + j * j = 1 \<and> b * c + f * g + j * k = 0 \<and>
     c * a + g * e + k * i = 0 \<and> c * b + g * f + k * j = 0 \<and> c * c + g * g + k * k = 1"
  by (simp add: rigid_def rotation_block_def identity3_def np_dot_def np_transpose_def
      ncols_def dotv_def upt_conv_Cons add.assoc)

lemma project_velo_to_ref_rows:
  assumes "V2C self = [[a, b, c, d], [e, f, g, h], [i, j, k, l]]"
    and "\<forall>p\<in>set pts. length p = 3"
  shows "project_velo_to_ref self pts =
     map (\<lambda>p. [a * p ! 0 + b * p ! 1 + c * p ! 2 + d,
               e * p ! 0 + f * p ! 1 + g * p ! 2 + h,
               i * p ! 0 + j * p ! 1 + k * p ! 2 + l]) pts"
proof -
  have "project_velo_to_ref self pts =
      map (\<lambda>x. map (dotv x) (V2C self)) (cart2hom pts)"
    unfolding project_velo_to_ref_def
    by (rule np_dot_transposed[where c = 4]) (simp_all add: assms(1))
  also have "\<dots> = map (\<lambda>p. map (dotv (p @ [1])) (V2C self)) pts"
    by (simp add: cart2hom_def comp_def)
  also have "\<dots> = map (\<lambda>p. [a * p ! 0 + b * p ! 1 + c * p ! 2 + d,
               e * p ! 0 + f * p ! 1 + g * p ! 2 + h,
               i * p ! 0 + j * p ! 1 + k * p ! 2 + l]) pts"
  proof (rule map_cong[OF refl])
    fix p assume "p \<in> set pts"
    then have "length p = 3" using assms(2) by simp
    then obtain x y z where "p = [x, y, z]" using len3 by blast
    then show "map (dotv (p @ [1])) (V2C self) =
        [a * p ! 0 + b * p ! 1 + c * p ! 2 + d,
         e * p ! 0 + f * p ! 1 + g * p ! 2 + h,
         i * p ! 0 + j * p ! 1 + k * p ! 2 + l]"
      by (simp add: assms(1) dotv_def algebra_simps)
  qed
  finally show ?thesis .
qed

lemma project_ref_to_velo_rows:
  assumes "C2V self = [[a, b, c, d], [e, f, g, h], [i, j, k, l]]"
    and "\<forall>p\<in>set pts. length p = 3"
  shows "project_ref_to_velo self pts =
     map (\<lambda>p. [a * p ! 0 + b * p ! 1 + c * p ! 2 + d,
               e * p ! 0 + f * p ! 1 + g * p ! 2 + h,
               i * p ! 0 + j * p ! 1 + k * p ! 2 + l]) pts"
proof -
  have "project_ref_to_velo self pts =
      map (\<lambda>x. map (dotv x) (C2V self)) (cart2hom pts)"
    unfolding project_ref_to_velo_def
    by (rule np_dot_transposed[where c = 4]) (simp_all add: assms(1))
  also have "\<dots> = map (\<lambda>p. map (dotv (p @ [1])) (C2V self)) pts"
    by (simp add: cart2hom_def comp_def)
  also have "\<dots> = map (\<lambda>p. [a * p ! 0 + b * p ! 1 + c * p ! 2 + d,
               e * p ! 0 + f * p ! 1 + g * p ! 2 + h,
               i * p ! 0 + j * p ! 1 + k * p ! 2 + l]) pts"
  proof (rule map_cong[OF refl])
    fix p assume "p \<in> set pts"
    then have "length p = 3" using assms(2) by simp
    then obtain x y z where "p = [x, y, z]" using len3 by blast
    then show "map (dotv (p @ [1])) (C2V self) =
        [a * p ! 0 + b * p ! 1 + c * p ! 2 + d,
         e * p ! 0 + f * p ! 1 + g * p ! 2 + h,
         i * p ! 0 + j * p ! 1 + k * p ! 2 + l]"
      by (simp add: assms(1) dotv_def algebra_simps)
  qed
  finally show ?thesis .
qed

lemma rigid_inverse_row:
  fixes a b c d e f g h i j k l x y z :: real
  assumes "a * a + e * e + i * i = 1" "a * b + e * f + i * j = 0" "a * c + e * g + i * k = 0"
  shows "a * (a * x + b * y + c * z + d) + e * (e * x + f * y + g * z + h)
         + i * (i * x + j * y + k * z + l) + (- a * d - e * h - i * l) = x"
proof -
  have "a * (a * x + b * y + c * z + d) + e * (e * x + f * y + g * z + h)
         + i * (i * x + j * y + k * z + l) + (- a * d - e * h - i * l)
      = (a * a + e * e + i * i) * x + (a * b + e * f + i * j) * y + (a * c + e * g + i * k) * z"
    by (simp add: algebra_simps)
  also have "\<dots> = x" by (simp only: assms mult_1 mult_zero_left add_0_right)
  finally show ?thesis .
qed

lemma ref_velo_inverse:
  assumes init: "FrustumProposal_init calibs = Inr self"
    and rig: "rigid (V2C self)"
    and pts: "\<forall>p\<in>set pts. length p = 3"
  shows "project_ref_to_velo self (project_velo_to_ref self pts) = pts"
proof -
  from init_shape[OF init] obtain Pm Vm Rm buf where
    Vm: "np_reshape buf 3 4 = Inr Vm" and
    self: "self = \<lparr>P = Pm, V2C = Vm, C2V = inverse_rigid_trans Vm, R0 = Rm\<rparr>"
    by blast
  from np_reshape_3_4[OF Vm] obtain a b c d e f g h i j k l where
    V: "Vm = [[a, b, c, d], [e, f, g, h], [i, j, k, l]]"
    by (elim exE) (rule that)
  have V2C: "V2C self = [[a, b, c, d], [e, f, g, h], [i, j, k, l]]"
    by (simp add: self V)
  have C2V: "C2V self = [[a, e, i, - a * d - e * h - i * l],
      [b, f, j, - b * d - f * h - j * l],
      [c, g, k, - c * d - g * h - k * l]]"
    by (simp add: self V inverse_rigid_trans_3_4)
  have orth: "a * a + e * e + i * i = 1" "a * b + e * f + i * j = 0" "a * c + e * g + i * k = 0"
     "b * a + f * e + j * i = 0" "b * b + f * f + j * j = 1" "b * c + f * g + j * k = 0"
     "c * a + g * e + k * i = 0" "c * b + g * f + k * j = 0" "c * c + g * g + k * k = 1"
    using rig unfolding V2C rigid_3_4 by blast+
  let ?ref = "project_velo_to_ref self pts"
  have ref: "?ref = map (\<lambda>p. [a * p ! 0 + b * p ! 1 + c * p ! 2 + d,
               e * p ! 0 + f * p ! 1 + g * p ! 2 + h,
               i * p ! 0 + j * p ! 1 + k * p ! 2 + l]) pts"
    using V2C pts by (rule project_velo_to_ref_rows)
  have ref3: "\<forall>q\<in>set ?ref. length q = 3"
    by (simp add: ref)
  have "project_ref_to_velo self ?ref =
      map (\<lambda>p. [a * p ! 0 + e * p ! 1 + i * p ! 2 + (- a * d - e * h - i * l),
                b * p ! 0 + f * p ! 1 + j * p ! 2 + (- b * d - f * h - j * l),
                c * p ! 0 + g * p ! 1 + k * p ! 2 + (- c * d - g * h - k * l)]) ?ref"
    using C2V ref3 by (rule project_ref_to_velo_rows)
  also have "\<dots> = map (\<lambda>p. p) pts"
    unfolding ref map_map
  proof (rule map_cong[OF refl])
    fix p assume "p \<in> set pts"
    then have "length p = 3" using pts by simp
    then obtain x y z where p: "p = [x, y, z]" using len3 by blast
    have 1: "a * (a * x + b * y + c * z + d) + e * (e * x + f * y + g * z + h)
         + i * (i * x + j * y + k * z + l) + (- a * d - e * h - i * l) = x"
      using orth(1,2,3) by (rule rigid_inverse_row)
    have 2: "b * (a * x + b * y + c * z + d) + f * (e * x + f * y + g * z + h)
         + j * (i * x + j * y + k * z + l) + (- b * d - f * h - j * l) = y"
      using rigid_inverse_row[of b f j a e i c g k y x z d h l] orth(4,5,6)
      by (simp add: algebra_simps)
    have 3: "c * (a * x + b * y + c * z + d) + g * (e * x + f * y + g * z + h)
         + k * (i * x + j * y + k * z + l) + (- c * d - g * h - k * l) = z"
      using rigid_inverse_row[of c g k a e i b f j z x y d h l] orth(7,8,9)
      by (simp add: algebra_simps)
    show "((\<lambda>p. [a * p ! 0 + e * p ! 1 + i * p ! 2 + (- a * d - e * h - i * l),
                b * p ! 0 + f * p ! 1 + j * p ! 2 + (- b * d - f * h - j * l),
                c * p ! 0 + g * p ! 1 + k * p ! 2 + (- c * d - g * h - k * l)]) \<circ>
          (\<lambda>p. [a * p ! 0 + b * p ! 1 + c * p ! 2 + d,
               e * p ! 0 + f * p ! 1 + g * p ! 2 + h,
               i * p ! 0 + j * p ! 1 + k * p ! 2 + l])) p = p"
      using 1 2 3 by (simp add: p)
  qed
  finally show ?thesis by simp
qed

lemma rows_times:
  assumes "M = [[a, b, c], [d, e, f], [g, h, i]]"
    and "\<forall>p\<in>set pts. length p = 3"
  shows "np_transpose (np_dot M (np_transpose pts)) =
     map (\<lambda>p. [a * p ! 0 + b * p ! 1 + c * p ! 2,
               d * p ! 0 + e * p ! 1 + f * p ! 2,
               g * p ! 0 + h * p ! 1 + i * p ! 2]) pts"
proof -
  have "np_transpose (np_dot M (np_transpose pts)) = map (\<lambda>p. map (\<lambda>r. dotv r p) M) pts"
    by (rule np_transpose_np_dot[where c = 3]) (simp_all add: assms)
  also have "\<dots> = map (\<lambda>p. [a * p ! 0 + b * p ! 1 + c * p ! 2,
               d * p ! 0 + e * p ! 1 + f * p ! 2,
               g * p ! 0 + h * p ! 1 + i * p ! 2]) pts"
  proof (rule map_cong[OF refl])
    fix p assume "p \<in> set pts"
    then have "length p = 3" using assms(2) by simp
    then obtain x y z where "p = [x, y, z]" using len3 by blast
    then show "map (\<lambda>r. dotv r p) M =
        [a * p ! 0 + b * p ! 1 + c * p ! 2,
         d * p ! 0 + e * p ! 1 + f * p ! 2,
         g * p ! 0 + h * p ! 1 + i * p ! 2]"
      by (simp add: assms(1) dotv_def algebra_simps)
  qed
  finally show ?thesis .
qed

lemma adjugate_row:
  fixes A B C u v w dt x :: real
  assumes "dt \<noteq> 0" and "A * u + B * v + C * w = dt * x"
  shows "A / dt * u + B / dt * v + C / dt * w = x"
proof -
  have "A / dt * u + B / dt * v + C / dt * w = (A * u + B * v + C * w) / dt"
    by (simp add: add_divide_distrib)
  also have "\<dots> = x" using assms by simp
  finally show ?thesis .
qed

lemma rect_ref_inverse:
  assumes R0: "R0 self = [[a, b, c], [d, e, f], [g, h, i]]"
    and det: "det3 (R0 self) \<noteq> 0"
    and pts: "\<forall>p\<in>set pts. length p = 3"
  shows "project_rect_to_ref self (project_ref_to_rect self pts) = Inr pts"
proof -
  define dt where "dt = a * (e * i - f * h) - b * (d * i - f * g) + c * (d * h - e * g)"
  have dt: "dt \<noteq> 0" using det by (simp add: R0 dt_def)
  let ?Ri = "[[(e * i - f * h) / dt, (c * h - b * i) / dt, (b * f - c * e) / dt],
              [(f * g - d * i) / dt, (a * i - c * g) / dt, (c * d - a * f) / dt],
              [(d * h - e * g) / dt, (b * g - a * h) / dt, (a * e - b * d) / dt]]"
  have inv: "np_linalg_inv (R0 self) = Inr ?Ri"
    using dt by (simp add: R0 dt_def Let_def)
  let ?rect = "project_ref_to_rect self pts"
  have rect: "?rect = map (\<lambda>p. [a * p ! 0 + b * p ! 1 + c * p ! 2,
               d * p ! 0 + e * p ! 1 + f * p ! 2,
               g * p ! 0 + h * p ! 1 + i * p ! 2]) pts"
    unfolding project_ref_to_rect_def using R0 pts by (rule rows_times)
  have rect3: "\<forall>q\<in>set ?rect. length q = 3" by (simp add: rect)
  have "np_transpose (np_dot ?Ri (np_transpose ?rect)) =
     map (\<lambda>p. [(e * i - f * h) / dt * p ! 0 + (c * h - b * i) / dt * p ! 1 + (b * f - c * e) / dt * p ! 2,
               (f * g - d * i) / dt * p ! 0 + (a * i - c * g) / dt * p ! 1 + (c * d - a * f) / dt * p ! 2,
               (d * h - e * g) / dt * p ! 0 + (b * g - a * h) / dt * p ! 1 + (a * e - b * d) / dt * p ! 2]) ?rect"
    using refl rect3 by (rule rows_times)
  also have "\<dots> = map (\<lambda>p. p) pts"
    unfolding rect map_map
  proof (rule map_cong[OF refl])
    fix p assume "p \<in> set pts"
    then have "length p = 3" using pts by simp
    then obtain x y z where p: "p = [x, y, z]" using len3 by blast
    have 1: "(e * i - f * h) / dt * (a * x + b * y + c * z) + (c * h - b * i) / dt * (d * x + e * y + f * z)
          + (b * f - c * e) / dt * (g * x + h * y + i * z) = x"
      using dt by (rule adjugate_row) (simp add: dt_def algebra_simps)
    have 2: "(f * g - d * i) / dt * (a * x + b * y + c * z) + (a * i - c * g) / dt * (d * x + e * y + f * z)
          + (c * d - a * f) / dt * (g * x + h * y + i * z) = y"
      using dt by (rule adjugate_row) (simp add: dt_def algebra_simps)
    have 3: "(d * h - e * g) / dt * (a * x + b * y + c * z) + (b * g - a * h) / dt * (d * x + e * y + f * z)
          + (a * e - b * d) / dt * (g * x + h * y + i * z) = z"
      using dt by (rule adjugate_row) (simp add: dt_def algebra_simps)
    show "((\<lambda>p. [(e * i - f * h) / dt * p ! 0 + (c * h - b * i) / dt * p ! 1 + (b * f - c * e) / dt * p ! 2,
               (f * g - d * i) / dt * p ! 0 + (a * i - c * g) / dt * p ! 1 + (c * d - a * f) / dt * p ! 2,
               (d * h - e * g) / dt * p ! 0 + (b * g - a * h) / dt * p ! 1 + (a * e - b * d) / dt * p ! 2]) \<circ>
          (\<lambda>p. [a * p ! 0 + b * p ! 1 + c * p ! 2,
               d * p ! 0 + e * p ! 1 + f * p ! 2,
               g * p ! 0 + h * p ! 1 + i * p ! 2])) p = p"
      using 1 2 3 by (simp add: p)
  qed
  finally show ?thesis
    by (simp add: project_rect_to_ref_def inv raising_def)
qed

lemma init_V2C_shape:
  assumes "FrustumProposal_init calibs = Inr self"
  shows "\<exists>a b c d e f g h i j k l. V2C self = [[a, b, c, d], [e, f, g, h], [i, j, k, l]]"
  using init_shape[OF assms] np_reshape_3_4 by fastforce

lemma init_R0_shape:
  assumes "FrustumProposal_init calibs = Inr self"
  shows "\<exists>a b c d e f g h i. R0 self = [[a, b, c], [d, e, f], [g, h, i]]"
  using init_shape[OF assms] np_reshape_3_3 by fastforce

lemma project_velo_to_ref_length:
  assumes "FrustumProposal_init calibs = Inr self" and "\<forall>p\<in>set pts. length p = 3"
  shows "\<forall>q\<in>set (project_velo_to_ref self pts). length q = 3"
proof -
  from init_V2C_shape[OF assms(1)] obtain a b c d e f g h i j k l where
    V: "V2C self = [[a, b, c, d], [e, f, g, h], [i, j, k, l]]"
    by (elim exE) (rule that)
  show ?thesis by (simp add: project_velo_to_ref_rows[OF V assms(2)])
qed

lemma rect_velo_inverse:
  assumes init: "FrustumProposal_init calibs = Inr self"
    and rig: "rigid (V2C self)"
    and det: "det3 (R0 self) \<noteq> 0"
    and pts: "\<forall>p\<in>set pts. length p = 3"
  shows "project_rect_to_velo self (project_velo_to_rect self pts) = Inr pts"
proof -
  from init_R0_shape[OF init] obtain a b c d e f g h i where
    R: "R0 self = [[a, b, c], [d, e, f], [g, h, i]]"
    by (elim exE) (rule that)
  have ref3: "\<forall>q\<in>set (project_velo_to_ref self pts). length q = 3"
    using init pts by (rule project_velo_to_ref_length)
  have "project_rect_to_ref self (project_velo_to_rect self pts) =
      Inr (project_velo_to_ref self pts)"
    unfolding project_velo_to_rect_def using R det ref3 by (rule rect_ref_inverse)
  then show ?thesis
    by (simp add: project_rect_to_velo_def raising_def ref_velo_inverse[OF init rig pts])
qed

subsection \<open>The example calibration evaluated\<close>

lemma example_init: "FrustumProposal_init example_calibs = Inr example_engine"
  by (simp add: example_calibs_def example_engine_def init_defs np_defs upt_conv_Cons)

lemma example_rigid: "rigid (V2C example_engine)"
  by (simp add: example_engine_def rigid_3_4)

lemma example_det: "det3 (R0 example_engine) = 2"
  by (simp add: example_engine_def)

subsection \<open>C1: sensor to reference and back\<close>

text \<open>
  C1. For an engine built by the constructor whose \<open>V2C\<close> is rigid (orthonormal rotation
  block), and for every array of 3D points, sensor to reference (homogenize, multiply by
  the transpose of \<open>V2C\<close>) followed by reference to sensor (homogenize, multiply by the
  transpose of the \<open>C2V\<close> computed at construction) returns the points, exactly in exact
  arithmetic.
\<close>

theorem velo_ref_round_trip:
  assumes "FrustumProposal_init calibs = Inr self"
    and "rigid (V2C self)"
    and "\<forall>p\<in>set pts. length p = 3"
  shows "project_ref_to_velo self (project_velo_to_ref self pts) = pts"
  using assms by (rule ref_velo_inverse)

text \<open>The round trip at the example calibration, on two points.\<close>

theorem velo_ref_round_trip_witness:
  "FrustumProposal_init example_calibs = Inr example_engine \<and>
   rigid (V2C example_engine) \<and>
   project_velo_to_ref example_engine [[5, 1, 0], [4, -2, 7]] = [[0, 2, 8], [3, -5, 7]] \<and>
   project_ref_to_velo example_engine
     (project_velo_to_ref example_engine [[5, 1, 0], [4, -2, 7]]) = [[5, 1, 0], [4, -2, 7]]"
proof -
  have pts: "\<forall>p\<in>set [[5, 1, 0], [4, -2, 7::real]]. length p = 3" by simp
  have ref: "project_velo_to_ref example_engine [[5, 1, 0], [4, -2, 7]] = [[0, 2, 8], [3, -5, 7]]"
    by (simp add: example_engine_def project_defs np_defs upt_conv_Cons)
  show ?thesis
    using velo_ref_round_trip[OF example_init example_rigid pts] example_init example_rigid ref
    by simp
qed

subsection \<open>C6: sensor to rectified and back\<close>

text \<open>
  C6. For an engine built by the constructor whose \<open>V2C\<close> is rigid and whose \<open>R0\<close> is
  invertible, and for every array of 3D points, rectified to sensor applied after sensor
  to rectified succeeds and returns the points, exactly in exact arithmetic.
\<close>

theorem full_chain_round_trip:
  assumes "FrustumProposal_init calibs = Inr self"
    and "rigid (V2C self)"
    and "det3 (R0 self) \<noteq> 0"
    and "\<forall>p\<in>set pts. length p = 3"
  shows "project_rect_to_velo self (project_velo_to_rect self pts) = Inr pts"
  using assms by (rule rect_velo_inverse)

text \<open>The full chain at the example calibration, on two points.\<close>

theorem full_chain_round_trip_witness:
  "FrustumProposal_init example_calibs = Inr example_engine \<and>
   rigid (V2C example_engine) \<and> det3 (R0 example_engine) = 2 \<and>
   project_velo_to_rect example_engine [[5, 1, 0], [4, -2, 7]] = [[0, 2, 16], [3, -5, 14]] \<and>
   project_rect_to_velo example_engine
     (project_velo_to_rect example_engine [[5, 1, 0], [4, -2, 7]]) = Inr [[5, 1, 0], [4, -2, 7]]"
proof -
  have pts: "\<forall>p\<in>set [[5, 1, 0], [4, -2, 7::real]]. length p = 3" by simp
  have det: "det3 (R0 example_engine) \<noteq> 0" by (simp add: example_det)
  have rect: "project_velo_to_rect example_engine [[5, 1, 0], [4, -2, 7]] = [[0, 2, 16], [3, -5, 14]]"
    by (simp add: example_engine_def project_defs np_defs upt_conv_Cons)
  show ?thesis
    using full_chain_round_trip[OF example_init example_rigid det pts]
      example_init example_rigid example_det rect
    by simp
qed

subsection \<open>Construction failures\<close>

lemma init_assertion_iff: "init_assertion calibs \<longleftrightarrow> calibs ''R0_rect'' \<noteq> None"
  by (simp add: init_assertion_def py_truthy_str_def)

lemma init_no_R0: "calibs ''R0_rect'' = None \<Longrightarrow> FrustumProposal_init calibs = Inl AssertionError"
  by (simp add: FrustumProposal_init_def init_assertion_iff)

lemma init_no_P:
  "calibs ''R0_rect'' \<noteq> None \<Longrightarrow> calibs ''P'' = None \<Longrightarrow>
   FrustumProposal_init calibs = Inl (KeyError ''P'')"
  by (simp add: FrustumProposal_init_def init_assertion_iff py_getitem_def raising_def)

lemma init_bad_P:
  "calibs ''R0_rect'' \<noteq> None \<Longrightarrow> calibs ''P'' = Some buf \<Longrightarrow> length buf \<noteq> 12 \<Longrightarrow>
   FrustumProposal_init calibs = Inl ValueError"
  by (simp add: FrustumProposal_init_def init_assertion_iff py_getitem_def raising_def
      np_reshape_def)

lemma init_no_Tr:
  "calibs ''R0_rect'' \<noteq> None \<Longrightarrow> buffer_ok calibs ''P'' 12 \<Longrightarrow>
   calibs ''Tr_velo_to_cam'' = None \<Longrightarrow>
   FrustumProposal_init calibs = Inl (KeyError ''Tr_velo_to_cam'')"
  by (auto simp: FrustumProposal_init_def init_assertion_iff py_getitem_def raising_def
      np_reshape_def buffer_ok_def split: option.splits)

lemma init_bad_Tr:
  "calibs ''R0_rect'' \<noteq> None \<Longrightarrow> buffer_ok calibs ''P'' 12 \<Longrightarrow>
   calibs ''Tr_velo_to_cam'' = Some buf \<Longrightarrow> length buf \<noteq> 12 \<Longrightarrow>
   FrustumProposal_init calibs = Inl ValueError"
  by (auto simp: FrustumProposal_init_def init_assertion_iff py_getitem_def raising_def
      np_reshape_def buffer_ok_def split: option.splits)

lemma init_bad_R0:
  "buffer_ok calibs ''P'' 12 \<Longrightarrow> buffer_ok calibs ''Tr_velo_to_cam'' 12 \<Longrightarrow>
   calibs ''R0_rect'' = Some buf \<Longrightarrow> length buf \<noteq> 9 \<Longrightarrow>
   FrustumProposal_init calibs = Inl ValueError"
  by (auto simp: FrustumProposal_init_def init_assertion_iff py_getitem_def raising_def
      np_reshape_def buffer_ok_def Let_def split: option.splits)

lemma init_failure_cases:
  assumes "\<not> (buffer_ok calibs ''P'' 12 \<and> buffer_ok calibs ''Tr_velo_to_cam'' 12 \<and>
              buffer_ok calibs ''R0_rect'' 9)"
  shows "FrustumProposal_init calibs = Inl AssertionError \<and> calibs ''R0_rect'' = None \<or>
         FrustumProposal_init calibs = Inl (KeyError ''P'') \<and> calibs ''R0_rect'' \<noteq> None \<or>
         FrustumProposal_init calibs = Inl (KeyError ''Tr_velo_to_cam'') \<and> calibs ''R0_rect'' \<noteq> None \<or>
         FrustumProposal_init calibs = Inl ValueError \<and> calibs ''R0_rect'' \<noteq> None"
proof (cases "calibs ''R0_rect''")
  case None
  then show ?thesis by (simp add: init_no_R0)
next
  case R: (Some rb)
  show ?thesis
  proof (cases "calibs ''P''")
    case None
    then show ?thesis using R by (simp add: init_no_P)
  next
    case Pb: (Some pb)
    show ?thesis
    proof (cases "length pb = 12")
      case False
      then show ?thesis using R Pb by (simp add: init_bad_P)
    next
      case True
      then have okP: "buffer_ok calibs ''P'' 12" using Pb by (simp add: buffer_ok_def)
      show ?thesis
      proof (cases "calibs ''Tr_velo_to_cam''")
        case None
        then show ?thesis using R okP by (simp add: init_no_Tr)
      next
        case Tb: (Some tb)
        show ?thesis
        proof (cases "length tb = 12")
          case False
          then show ?thesis using R okP Tb by (simp add: init_bad_Tr)
        next
          case True
          then have okT: "buffer_ok calibs ''Tr_velo_to_cam'' 12"
            using Tb by (simp add: buffer_ok_def)
          have "length rb \<noteq> 9" using assms okP okT R by (simp add: buffer_ok_def)
          then show ?thesis using R okP okT by (simp add: init_bad_R0)
        qed
      qed
    qed
  qed
qed

lemma init_keys_present_mis_sized:
  assumes keys: "calibs ''P'' \<noteq> None" "calibs ''Tr_velo_to_cam'' \<noteq> None"
      "calibs ''R0_rect'' \<noteq> None"
    and bad: "\<not> (buffer_ok calibs ''P'' 12 \<and> buffer_ok calibs ''Tr_velo_to_cam'' 12 \<and>
              buffer_ok calibs ''R0_rect'' 9)"
  shows "FrustumProposal_init calibs = Inl ValueError"
proof -
  from keys obtain pb tb rb where
    Pb: "calibs ''P'' = Some pb" and Tb: "calibs ''Tr_velo_to_cam'' = Some tb" and
    Rb: "calibs ''R0_rect'' = Some rb"
    by auto
  show ?thesis
  proof (cases "length pb = 12")
    case False
    then show ?thesis using keys(3) Pb by (simp add: init_bad_P)
  next
    case True
    then have okP: "buffer_ok calibs ''P'' 12" using Pb by (simp add: buffer_ok_def)
    show ?thesis
    proof (cases "length tb = 12")
      case False
      then show ?thesis using keys(3) okP Tb by (simp add: init_bad_Tr)
    next
      case True
      then have okT: "buffer_ok calibs ''Tr_velo_to_cam'' 12"
        using Tb by (simp add: buffer_ok_def)
      have "length rb \<noteq> 9" using bad okP okT Rb by (simp add: buffer_ok_def)
      then show ?thesis using okP okT Rb by (simp add: init_bad_R0)
    qed
  qed
qed

subsection \<open>C3: construction with a missing or mis-sized buffer\<close>

text \<open>
  C3 (as stated, refuted). The claim has one exception, \<open>InvalidCalibration\<close>, raised for
  every missing or mis-sized buffer. The module defines no such exception: an 11-value
  \<open>P\<close> makes \<open>np.reshape\<close> raise \<open>ValueError\<close>, and a missing \<open>R0_rect\<close> fails the
  assertion with \<open>AssertionError\<close>, a different exception.
\<close>

theorem construction_errors_differ:
  "FrustumProposal_init short_P_calibs = Inl ValueError \<and>
   FrustumProposal_init (scenario_calibs(''R0_rect'' := None)) = Inl AssertionError"
  by (simp add: short_P_calibs_def scenario_calibs_def init_no_R0 init_bad_P)

text \<open>
  C3 (amended). Whenever one of the three buffers is missing or does not hold the expected
  number of values (12, 12, 9), construction fails with a built-in exception and no
  engine is produced. When the three keys are present and an element count does not
  match, as with a \<open>P\<close> of 11 values, the exception is numpy's \<open>ValueError\<close>.
\<close>

theorem construction_fails_without_engine:
  assumes "\<not> (buffer_ok calibs ''P'' 12 \<and> buffer_ok calibs ''Tr_velo_to_cam'' 12 \<and>
              buffer_ok calibs ''R0_rect'' 9)"
  shows "(\<exists>e. FrustumProposal_init calibs = Inl e) \<and>
         (calibs ''P'' \<noteq> None \<and> calibs ''Tr_velo_to_cam'' \<noteq> None \<and>
          calibs ''R0_rect'' \<noteq> None \<longrightarrow> FrustumProposal_init calibs = Inl ValueError)"
proof -
  have "\<exists>e. FrustumProposal_init calibs = Inl e"
    using init_failure_cases[OF assms] by blast
  moreover have "FrustumProposal_init calibs = Inl ValueError"
    if "calibs ''P'' \<noteq> None \<and> calibs ''Tr_velo_to_cam'' \<noteq> None \<and> calibs ''R0_rect'' \<noteq> None"
    using that assms by (simp add: init_keys_present_mis_sized)
  ultimately show ?thesis by blast
qed

text \<open>Construction from the scenario's calibration with an 11-value \<open>P\<close>.\<close>

theorem construction_fails_without_engine_witness:
  "\<not> buffer_ok short_P_calibs ''P'' 12 \<and> short_P_calibs ''P'' \<noteq> None \<and>
   short_P_calibs ''Tr_velo_to_cam'' \<noteq> None \<and> short_P_calibs ''R0_rect'' \<noteq> None \<and>
   FrustumProposal_init short_P_calibs = Inl ValueError"
proof -
  have bad: "\<not> (buffer_ok short_P_calibs ''P'' 12 \<and> buffer_ok short_P_calibs ''Tr_velo_to_cam'' 12 \<and>
              buffer_ok short_P_calibs ''R0_rect'' 9)"
    by (simp add: short_P_calibs_def buffer_ok_def)
  have keys: "short_P_calibs ''P'' \<noteq> None \<and> short_P_calibs ''Tr_velo_to_cam'' \<noteq> None \<and>
      short_P_calibs ''R0_rect'' \<noteq> None"
    by (simp add: short_P_calibs_def scenario_calibs_def)
  from construction_fails_without_engine[OF bad] keys
  have "FrustumProposal_init short_P_calibs = Inl ValueError" by blast
  moreover have "\<not> buffer_ok short_P_calibs ''P'' 12"
    by (simp add: short_P_calibs_def buffer_ok_def)
  ultimately show ?thesis using keys by simp
qed

subsection \<open>C10: what the assertion checks\<close>

text \<open>
  C10 (as stated, refuted). The claim has every calibration with \<open>R0_rect\<close> that lacks
  \<open>P\<close> or \<open>Tr_velo_to_cam\<close> fail at a key lookup. With an 11-value \<open>P\<close> and no
  \<open>Tr_velo_to_cam\<close> the assertion passes and construction fails at the reshape of
  \<open>P\<close>, before \<open>Tr_velo_to_cam\<close> is looked up: the exception is no \<open>KeyError\<close>.
\<close>

theorem missing_Tr_fails_at_reshape:
  "init_assertion short_P_no_Tr_calibs \<and>
   short_P_no_Tr_calibs ''R0_rect'' \<noteq> None \<and>
   short_P_no_Tr_calibs ''Tr_velo_to_cam'' = None \<and>
   FrustumProposal_init short_P_no_Tr_calibs = Inl ValueError \<and>
   (\<forall>k. FrustumProposal_init short_P_no_Tr_calibs \<noteq> Inl (KeyError k))"
proof -
  have r: "short_P_no_Tr_calibs ''R0_rect'' \<noteq> None"
    by (simp add: short_P_no_Tr_calibs_def short_P_calibs_def scenario_calibs_def)
  have p: "short_P_no_Tr_calibs ''P'' = Some [1, 0, 0, 0, 0, 1, 0, 0, 0, 0, 1]"
    by (simp add: short_P_no_Tr_calibs_def short_P_calibs_def)
  have t: "short_P_no_Tr_calibs ''Tr_velo_to_cam'' = None"
    by (simp add: short_P_no_Tr_calibs_def)
  have "FrustumProposal_init short_P_no_Tr_calibs = Inl ValueError"
    using r p by (rule init_bad_P) simp
  then show ?thesis using r t by (simp add: init_assertion_iff)
qed

text \<open>
  C10 (amended). The assertion succeeds if and only if \<open>R0_rect\<close> is present. With
  \<open>R0_rect\<close> present, a missing \<open>P\<close> makes construction fail at the lookup of \<open>P\<close>, and
  a missing \<open>Tr_velo_to_cam\<close> beside a 12-value \<open>P\<close> makes it fail at the lookup of
  \<open>Tr_velo_to_cam\<close>; whenever \<open>P\<close> or \<open>Tr_velo_to_cam\<close> is missing, construction fails
  after the assertion, not through it.
\<close>

theorem assertion_checks_only_R0_rect:
  "(init_assertion calibs \<longleftrightarrow> calibs ''R0_rect'' \<noteq> None) \<and>
   (calibs ''R0_rect'' \<noteq> None \<and> calibs ''P'' = None \<longrightarrow>
      FrustumProposal_init calibs = Inl (KeyError ''P'')) \<and>
   (calibs ''R0_rect'' \<noteq> None \<and> buffer_ok calibs ''P'' 12 \<and> calibs ''Tr_velo_to_cam'' = None \<longrightarrow>
      FrustumProposal_init calibs = Inl (KeyError ''Tr_velo_to_cam'')) \<and>
   (calibs ''R0_rect'' \<noteq> None \<and> (calibs ''P'' = None \<or> calibs ''Tr_velo_to_cam'' = None) \<longrightarrow>
      (\<exists>e. FrustumProposal_init calibs = Inl e \<and> e \<noteq> AssertionError))"
proof -
  have "\<exists>e. FrustumProposal_init calibs = Inl e \<and> e \<noteq> AssertionError"
    if r: "calibs ''R0_rect'' \<noteq> None" and m: "calibs ''P'' = None \<or> calibs ''Tr_velo_to_cam'' = None"
  proof -
    have "\<not> (buffer_ok calibs ''P'' 12 \<and> buffer_ok calibs ''Tr_velo_to_cam'' 12 \<and>
              buffer_ok calibs ''R0_rect'' 9)"
      using m by (auto simp: buffer_ok_def)
    from init_failure_cases[OF this] r show ?thesis by auto
  qed
  then show ?thesis
    by (simp add: init_assertion_iff init_no_P init_no_Tr)
qed

text \<open>The scenario's calibration with one key removed at a time.\<close>

theorem assertion_checks_only_R0_rect_witness:
  "init_assertion (scenario_calibs(''P'' := None)) \<and>
   FrustumProposal_init (scenario_calibs(''P'' := None)) = Inl (KeyError ''P'') \<and>
   init_assertion (scenario_calibs(''Tr_velo_to_cam'' := None)) \<and>
   FrustumProposal_init (scenario_calibs(''Tr_velo_to_cam'' := None)) =
     Inl (KeyError ''Tr_velo_to_cam'') \<and>
   \<not> init_assertion (scenario_calibs(''R0_rect'' := None))"
proof -
  let ?c1 = "scenario_calibs(''P'' := None)"
  let ?c2 = "scenario_calibs(''Tr_velo_to_cam'' := None)"
  let ?c3 = "scenario_calibs(''R0_rect'' := None)"
  have r1: "?c1 ''R0_rect'' \<noteq> None" and p1: "?c1 ''P'' = None"
    by (simp_all add: scenario_calibs_def)
  have r2: "?c2 ''R0_rect'' \<noteq> None" and p2: "buffer_ok ?c2 ''P'' 12"
    and t2: "?c2 ''Tr_velo_to_cam'' = None"
    by (simp_all add: scenario_calibs_def buffer_ok_def)
  have r3: "?c3 ''R0_rect'' = None" by simp
  show ?thesis
    using assertion_checks_only_R0_rect[of ?c1] assertion_checks_only_R0_rect[of ?c2]
      assertion_checks_only_R0_rect[of ?c3] r1 p1 r2 p2 t2 r3
    by blast
qed

subsection \<open>Masks, selections and projections\<close>

lemma np_select_Cons:
  "np_select (x # xs) (b # bs) = (if b then x # np_select xs bs else np_select xs bs)"
  by (simp add: np_select_def)

lemma np_nonzero_Cons:
  "np_nonzero (b # bs) = (if b then 0 # map Suc (np_nonzero bs) else map Suc (np_nonzero bs))"
proof -
  have "[0..<length (b # bs)] = 0 # map Suc [0..<length bs]"
    by (simp add: upt_conv_Cons map_Suc_upt del: upt_Suc)
  then show ?thesis
    by (simp add: np_nonzero_def filter_map comp_def del: upt_Suc)
qed

lemma np_select_nonzero:
  "length inds = length a \<Longrightarrow> np_select a inds = map ((!) a) (np_nonzero inds)"
proof (induction a inds rule: list_induct2')
  case 1
  then show ?case by (simp add: np_select_def np_nonzero_def)
next
  case (4 x xs b bs)
  then show ?case by (simp add: np_select_Cons np_nonzero_Cons comp_def)
qed simp_all

lemma np_nonzero_sorted: "sorted_wrt (<) (np_nonzero inds)"
  unfolding np_nonzero_def by (rule sorted_wrt_filter) simp

lemma np_nonzero_set: "k \<in> set (np_nonzero inds) \<longleftrightarrow> k < length inds \<and> inds ! k"
  by (auto simp: np_nonzero_def)

lemma np_select_set:
  "length inds = length a \<Longrightarrow>
   p \<in> set (np_select a inds) \<longleftrightarrow> (\<exists>k<length a. inds ! k \<and> p = a ! k)"
  by (auto simp: np_select_nonzero np_nonzero_set)

lemma init_C2V_shape:
  assumes "FrustumProposal_init calibs = Inr self"
  shows "\<exists>a b c d e f g h i j k l. C2V self = [[a, b, c, d], [e, f, g, h], [i, j, k, l]]"
proof -
  from init_shape[OF assms] obtain Pm Vm Rm buf where
    Vm: "np_reshape buf 3 4 = Inr Vm" and
    self: "self = \<lparr>P = Pm, V2C = Vm, C2V = inverse_rigid_trans Vm, R0 = Rm\<rparr>"
    by blast
  from np_reshape_3_4[OF Vm] obtain a b c d e f g h i j k l where
    "Vm = [[a, b, c, d], [e, f, g, h], [i, j, k, l]]"
    by (elim exE) (rule that)
  then show ?thesis by (simp add: self inverse_rigid_trans_3_4)
qed

text \<open>Each conversion acts on the rows one by one.\<close>

lemma project_velo_to_rect_map:
  assumes init: "FrustumProposal_init calibs = Inr self"
  shows "\<exists>f. (\<forall>q. length (f q) = 3) \<and>
           (\<forall>pts. (\<forall>p\<in>set pts. length p = 3) \<longrightarrow> project_velo_to_rect self pts = map f pts)"
proof -
  from init_V2C_shape[OF init] obtain a b c d e f g h i j k l where
    V: "V2C self = [[a, b, c, d], [e, f, g, h], [i, j, k, l]]"
    by (elim exE) (rule that)
  from init_R0_shape[OF init] obtain r1 r2 r3 r4 r5 r6 r7 r8 r9 where
    R: "R0 self = [[r1, r2, r3], [r4, r5, r6], [r7, r8, r9]]"
    by (elim exE) (rule that)
  let ?v = "\<lambda>p. [a * p ! 0 + b * p ! 1 + c * p ! 2 + d,
               e * p ! 0 + f * p ! 1 + g * p ! 2 + h,
               i * p ! 0 + j * p ! 1 + k * p ! 2 + l]"
  let ?r = "\<lambda>p. [r1 * p ! 0 + r2 * p ! 1 + r3 * p ! 2,
               r4 * p ! 0 + r5 * p ! 1 + r6 * p ! 2,
               r7 * p ! 0 + r8 * p ! 1 + r9 * p ! 2::real]"
  have "project_velo_to_rect self pts = map (?r \<circ> ?v) pts" if pts: "\<forall>p\<in>set pts. length p = 3" for pts
  proof -
    have ref: "project_velo_to_ref self pts = map ?v pts"
      using V pts by (rule project_velo_to_ref_rows)
    have "\<forall>q\<in>set (map ?v pts). length q = 3" by simp
    with R have "np_transpose (np_dot (R0 self) (np_transpose (map ?v pts))) = map ?r (map ?v pts)"
      by (rule rows_times)
    then show ?thesis by (simp add: project_velo_to_rect_def project_ref_to_rect_def ref)
  qed
  moreover have "\<forall>q. length ((?r \<circ> ?v) q) = 3" by simp
  ultimately show ?thesis by blast
qed

lemma project_velo_to_rect_length:
  assumes "FrustumProposal_init calibs = Inr self" and "\<forall>p\<in>set pts. length p = 3"
  shows "length (project_velo_to_rect self pts) = length pts"
  using project_velo_to_rect_map[OF assms(1)] assms(2) by auto

lemma project_rect_to_image_length: "length (project_rect_to_image self pts) = length pts"
  by (simp add: project_rect_to_image_def np_dot_def cart2hom_def)

lemma project_velo_to_image_length:
  assumes "FrustumProposal_init calibs = Inr self" and "\<forall>p\<in>set pts. length p = 3"
  shows "length (project_velo_to_image self pts) = length pts"
  by (simp add: project_velo_to_image_def project_rect_to_image_length
      project_velo_to_rect_length[OF assms])

text \<open>The three values of the filter, and how the mask is aligned with the input.\<close>

lemma fov_more_parts:
  assumes "get_lidar_in_image_fov self pc_velo xmin ymin xmax ymax True clip = FovMore sub pts_2d fov_inds"
  shows "pts_2d = project_velo_to_image self pc_velo"
    and "fov_inds = map2 (\<and>) (map (\<lambda>c. box_test c xmin ymin xmax ymax) pts_2d)
                       (map (\<lambda>p. clip < p ! 0) pc_velo)"
    and "sub = np_select pc_velo fov_inds"
    and "get_lidar_in_image_fov self pc_velo xmin ymin xmax ymax False clip = Fov sub"
  using assms by (auto simp: get_lidar_in_image_fov_def Let_def)

lemma fov_more_exists:
  "\<exists>sub pts_2d fov_inds.
     get_lidar_in_image_fov self pc_velo xmin ymin xmax ymax True clip = FovMore sub pts_2d fov_inds"
  by (simp add: get_lidar_in_image_fov_def Let_def)

lemma fov_mask_aligned:
  assumes init: "FrustumProposal_init calibs = Inr self"
    and pc: "\<forall>p\<in>set pc_velo. length p = 3"
    and run: "get_lidar_in_image_fov self pc_velo xmin ymin xmax ymax True clip = FovMore sub pts_2d fov_inds"
  shows "length pts_2d = length pc_velo"
    and "length fov_inds = length pc_velo"
    and "k < length pc_velo \<Longrightarrow>
         fov_inds ! k = (box_test (pts_2d ! k) xmin ymin xmax ymax \<and> clip < pc_velo ! k ! 0)"
proof -
  show len: "length pts_2d = length pc_velo"
    using fov_more_parts(1)[OF run] project_velo_to_image_length[OF init pc] by simp
  show "length fov_inds = length pc_velo"
    using fov_more_parts(2)[OF run] len by simp
  show "fov_inds ! k = (box_test (pts_2d ! k) xmin ymin xmax ymax \<and> clip < pc_velo ! k ! 0)"
    if "k < length pc_velo"
    using fov_more_parts(2)[OF run] len that by simp
qed

lemma box_test_upper_x: "c ! 0 = Fin xmax \<Longrightarrow> \<not> box_test c xmin ymin xmax ymax"
  by (simp add: box_test_def fl_lt_def)

lemma box_test_upper_y: "c ! 1 = Fin ymax \<Longrightarrow> \<not> box_test c xmin ymin xmax ymax"
  by (simp add: box_test_def fl_lt_def)

lemma box_test_lower_x:
  "c ! 0 = Fin xmin \<Longrightarrow> xmin < xmax \<Longrightarrow> fl_lt (c ! 1) ymax \<Longrightarrow> fl_ge (c ! 1) ymin \<Longrightarrow>
   box_test c xmin ymin xmax ymax"
  by (simp add: box_test_def fl_lt_def fl_ge_def)

lemma box_test_lower_y:
  "c ! 1 = Fin ymin \<Longrightarrow> ymin < ymax \<Longrightarrow> fl_lt (c ! 0) xmax \<Longrightarrow> fl_ge (c ! 0) xmin \<Longrightarrow>
   box_test c xmin ymin xmax ymax"
  by (simp add: box_test_def fl_lt_def fl_ge_def)

lemma box_fov_inds_nth:
  "k < length coord \<Longrightarrow> k < length img_inds \<Longrightarrow>
   box_fov_inds_of coord img_inds (xmin, ymin, xmax, ymax) ! k =
     (box_test (coord ! k) xmin ymin xmax ymax \<and> img_inds ! k)"
  by (simp add: box_fov_inds_of_def)

subsection \<open>The filter at the example calibration\<close>

lemma example_projection:
  "project_velo_to_image example_engine [[2, 1, 0], [5, 1, 0]] =
     [[Fin 1, Fin (7 / 5)], [Fin 1, Fin (5 / 4)]]"
  by (simp add: example_engine_def project_defs np_defs fl_div_def upt_conv_Cons)

lemma example_fov:
  "get_lidar_in_image_fov example_engine [[2, 1, 0], [5, 1, 0]] 0 0 4 4 True 2 =
     FovMore [[5, 1, 0]] [[Fin 1, Fin (7 / 5)], [Fin 1, Fin (5 / 4)]] [False, True]"
  by (simp add: get_lidar_in_image_fov_def example_projection box_test_def fl_lt_def fl_ge_def
      np_select_def)

lemma example_fov_upper:
  "get_lidar_in_image_fov example_engine [[2, 1, 0], [5, 1, 0]] 0 0 1 4 True 2 =
     FovMore [] [[Fin 1, Fin (7 / 5)], [Fin 1, Fin (5 / 4)]] [False, False]"
  by (simp add: get_lidar_in_image_fov_def example_projection box_test_def fl_lt_def fl_ge_def
      np_select_def)

lemma example_fov_lower:
  "get_lidar_in_image_fov example_engine [[2, 1, 0], [5, 1, 0]] 1 0 4 4 True 2 =
     FovMore [[5, 1, 0]] [[Fin 1, Fin (7 / 5)], [Fin 1, Fin (5 / 4)]] [False, True]"
  by (simp add: get_lidar_in_image_fov_def example_projection box_test_def fl_lt_def fl_ge_def
      np_select_def)

subsection \<open>C4: the clip distance is a strict bound\<close>

text \<open>
  C4. In \<open>_get_lidar_in_image_fov\<close>, for an engine built by the constructor and an array
  of 3D points: a point whose first sensor coordinate equals the clip distance has a false
  mask entry, and no row of the filtered subset has that first coordinate; a point whose
  first coordinate is the clip distance plus a positive amount and whose projection passes
  the box test has a true mask entry and is a row of the filtered subset, which is also
  what the filter returns without \<open>return_more\<close>.
\<close>

theorem clip_distance_strict:
  assumes init: "FrustumProposal_init calibs = Inr self"
    and pc: "\<forall>p\<in>set pc_velo. length p = 3"
    and run: "get_lidar_in_image_fov self pc_velo xmin ymin xmax ymax True clip =
                FovMore sub pts_2d fov_inds"
    and k: "k < length pc_velo"
  shows "(pc_velo ! k ! 0 = clip \<longrightarrow> \<not> fov_inds ! k) \<and>
         (\<forall>p\<in>set sub. p ! 0 \<noteq> clip) \<and>
         (\<forall>\<epsilon>>0. pc_velo ! k ! 0 = clip + \<epsilon> \<and> box_test (pts_2d ! k) xmin ymin xmax ymax \<longrightarrow>
            fov_inds ! k \<and> pc_velo ! k \<in> set sub) \<and>
         get_lidar_in_image_fov self pc_velo xmin ymin xmax ymax False clip = Fov sub"
proof -
  note len = fov_mask_aligned(2)[OF init pc run]
  note nth = fov_mask_aligned(3)[OF init pc run]
  have sub: "sub = np_select pc_velo fov_inds" by (rule fov_more_parts(3)[OF run])
  have mem: "p \<in> set sub \<longleftrightarrow> (\<exists>j<length pc_velo. fov_inds ! j \<and> p = pc_velo ! j)" for p
    unfolding sub using len by (rule np_select_set)
  have 1: "pc_velo ! k ! 0 = clip \<longrightarrow> \<not> fov_inds ! k"
    using nth[OF k] by simp
  have 2: "\<forall>p\<in>set sub. p ! 0 \<noteq> clip"
  proof
    fix p assume "p \<in> set sub"
    then obtain j where j: "j < length pc_velo" "fov_inds ! j" "p = pc_velo ! j"
      using mem by blast
    then show "p ! 0 \<noteq> clip" using nth[OF j(1)] by simp
  qed
  have 3: "\<forall>\<epsilon>>0. pc_velo ! k ! 0 = clip + \<epsilon> \<and> box_test (pts_2d ! k) xmin ymin xmax ymax \<longrightarrow>
            fov_inds ! k \<and> pc_velo ! k \<in> set sub"
    using nth[OF k] k mem by auto
  show ?thesis using 1 2 3 fov_more_parts(4)[OF run] by blast
qed

text \<open>The filter on two points, the first at the clip distance 2, the second at 5.\<close>

theorem clip_distance_strict_witness:
  "get_lidar_in_image_fov example_engine [[2, 1, 0], [5, 1, 0]] 0 0 4 4 True 2 =
     FovMore [[5, 1, 0]] [[Fin 1, Fin (7 / 5)], [Fin 1, Fin (5 / 4)]] [False, True] \<and>
   get_lidar_in_image_fov example_engine [[2, 1, 0], [5, 1, 0]] 0 0 4 4 False 2 = Fov [[5, 1, 0]] \<and>
   box_test [Fin 1, Fin (7 / 5)] 0 0 4 4 \<and> box_test [Fin 1, Fin (5 / 4)] 0 0 4 4"
proof -
  have pc: "\<forall>p\<in>set [[2, 1, 0], [5, 1, 0::real]]. length p = 3" by simp
  have k: "0 < length [[2, 1, 0], [5, 1, 0::real]]" by simp
  have k1: "1 < length [[2, 1, 0], [5, 1, 0::real]]" by simp
  have b: "box_test [Fin 1, Fin (7 / 5)] 0 0 4 4 \<and> box_test [Fin 1, Fin (5 / 4)] 0 0 4 4"
    by (simp add: box_test_def fl_lt_def fl_ge_def)
  show ?thesis
    using clip_distance_strict[OF example_init pc example_fov k]
      clip_distance_strict[OF example_init pc example_fov k1] example_fov b
    by simp
qed

subsection \<open>C5: box membership is half-open\<close>

text \<open>
  C5. In the filter and in the mask of each box, a point whose projected x equals \<open>xmax\<close>
  or whose projected y equals \<open>ymax\<close> has a false mask entry; a point whose projected x
  equals \<open>xmin\<close> (or y equals \<open>ymin\<close>) has a true entry when the other conditions hold:
  the interval is not empty, the other coordinate is in its interval, and the point is
  beyond the clip distance (in the filter) or kept by the whole-image mask (in a box).
\<close>

theorem half_open_bounds:
  assumes init: "FrustumProposal_init calibs = Inr self"
    and pc: "\<forall>p\<in>set pc_velo. length p = 3"
    and run: "get_lidar_in_image_fov self pc_velo xmin ymin xmax ymax True clip =
                FovMore sub pts_2d fov_inds"
    and k: "k < length pc_velo"
    and kc: "k < length coord" and ki: "k < length img_inds"
  shows "(pts_2d ! k ! 0 = Fin xmax \<longrightarrow> \<not> fov_inds ! k) \<and>
         (pts_2d ! k ! 1 = Fin ymax \<longrightarrow> \<not> fov_inds ! k) \<and>
         (pts_2d ! k ! 0 = Fin xmin \<and> xmin < xmax \<and> fl_lt (pts_2d ! k ! 1) ymax \<and>
            fl_ge (pts_2d ! k ! 1) ymin \<and> clip < pc_velo ! k ! 0 \<longrightarrow> fov_inds ! k) \<and>
         (pts_2d ! k ! 1 = Fin ymin \<and> ymin < ymax \<and> fl_lt (pts_2d ! k ! 0) xmax \<and>
            fl_ge (pts_2d ! k ! 0) xmin \<and> clip < pc_velo ! k ! 0 \<longrightarrow> fov_inds ! k) \<and>
         (coord ! k ! 0 = Fin bxmax \<longrightarrow>
            \<not> box_fov_inds_of coord img_inds (bxmin, bymin, bxmax, bymax) ! k) \<and>
         (coord ! k ! 1 = Fin bymax \<longrightarrow>
            \<not> box_fov_inds_of coord img_inds (bxmin, bymin, bxmax, bymax) ! k) \<and>
         (coord ! k ! 0 = Fin bxmin \<and> bxmin < bxmax \<and> fl_lt (coord ! k ! 1) bymax \<and>
            fl_ge (coord ! k ! 1) bymin \<and> img_inds ! k \<longrightarrow>
            box_fov_inds_of coord img_inds (bxmin, bymin, bxmax, bymax) ! k) \<and>
         (coord ! k ! 1 = Fin bymin \<and> bymin < bymax \<and> fl_lt (coord ! k ! 0) bxmax \<and>
            fl_ge (coord ! k ! 0) bxmin \<and> img_inds ! k \<longrightarrow>
            box_fov_inds_of coord img_inds (bxmin, bymin, bxmax, bymax) ! k)"
proof -
  note nth = fov_mask_aligned(3)[OF init pc run k]
  note bnth = box_fov_inds_nth[OF kc ki]
  have 1: "pts_2d ! k ! 0 = Fin xmax \<longrightarrow> \<not> fov_inds ! k"
    using nth box_test_upper_x by blast
  have 2: "pts_2d ! k ! 1 = Fin ymax \<longrightarrow> \<not> fov_inds ! k"
    using nth box_test_upper_y by blast
  have 3: "pts_2d ! k ! 0 = Fin xmin \<and> xmin < xmax \<and> fl_lt (pts_2d ! k ! 1) ymax \<and>
            fl_ge (pts_2d ! k ! 1) ymin \<and> clip < pc_velo ! k ! 0 \<longrightarrow> fov_inds ! k"
    using nth box_test_lower_x by blast
  have 4: "pts_2d ! k ! 1 = Fin ymin \<and> ymin < ymax \<and> fl_lt (pts_2d ! k ! 0) xmax \<and>
            fl_ge (pts_2d ! k ! 0) xmin \<and> clip < pc_velo ! k ! 0 \<longrightarrow> fov_inds ! k"
    using nth box_test_lower_y by blast
  have 5: "coord ! k ! 0 = Fin bxmax \<longrightarrow>
            \<not> box_fov_inds_of coord img_inds (bxmin, bymin, bxmax, bymax) ! k"
    using bnth box_test_upper_x by blast
  have 6: "coord ! k ! 1 = Fin bymax \<longrightarrow>
            \<not> box_fov_inds_of coord img_inds (bxmin, bymin, bxmax, bymax) ! k"
    using bnth box_test_upper_y by blast
  have 7: "coord ! k ! 0 = Fin bxmin \<and> bxmin < bxmax \<and> fl_lt (coord ! k ! 1) bymax \<and>
            fl_ge (coord ! k ! 1) bymin \<and> img_inds ! k \<longrightarrow>
            box_fov_inds_of coord img_inds (bxmin, bymin, bxmax, bymax) ! k"
    using bnth box_test_lower_x by blast
  have 8: "coord ! k ! 1 = Fin bymin \<and> bymin < bymax \<and> fl_lt (coord ! k ! 0) bxmax \<and>
            fl_ge (coord ! k ! 0) bxmin \<and> img_inds ! k \<longrightarrow>
            box_fov_inds_of coord img_inds (bxmin, bymin, bxmax, bymax) ! k"
    using bnth box_test_lower_y by blast
  show ?thesis using 1 2 3 4 5 6 7 8 by blast
qed

text \<open>
  A point projecting to x = 1: out of the filter and of the box with \<open>xmax = 1\<close>, in the
  filter and in the box with \<open>xmin = 1\<close>.
\<close>

theorem half_open_bounds_witness:
  "get_lidar_in_image_fov example_engine [[2, 1, 0], [5, 1, 0]] 0 0 1 4 True 2 =
     FovMore [] [[Fin 1, Fin (7 / 5)], [Fin 1, Fin (5 / 4)]] [False, False] \<and>
   get_lidar_in_image_fov example_engine [[2, 1, 0], [5, 1, 0]] 1 0 4 4 True 2 =
     FovMore [[5, 1, 0]] [[Fin 1, Fin (7 / 5)], [Fin 1, Fin (5 / 4)]] [False, True] \<and>
   \<not> box_fov_inds_of [[Fin 1, Fin (7 / 5)], [Fin 1, Fin (5 / 4)]] [False, True] (0, 0, 1, 4) ! 1 \<and>
   box_fov_inds_of [[Fin 1, Fin (7 / 5)], [Fin 1, Fin (5 / 4)]] [False, True] (1, 0, 4, 4) ! 1"
proof -
  let ?pc = "[[2, 1, 0], [5, 1, 0::real]]"
  let ?co = "[[Fin 1, Fin (7 / 5)], [Fin 1, Fin (5 / 4)]]"
  have pc: "\<forall>p\<in>set ?pc. length p = 3" by simp
  have k: "1 < length ?pc" by simp
  have kc: "1 < length ?co" by simp
  have ki: "1 < length [False, True]" by simp
  have y: "fl_lt (Fin (5 / 4)) 4 \<and> fl_ge (Fin (5 / 4)) 0"
    by (simp add: fl_lt_def fl_ge_def)
  show ?thesis
    using half_open_bounds[OF example_init pc example_fov_upper k kc ki,
        where bxmin = 0 and bymin = 0 and bxmax = 1 and bymax = 4]
      half_open_bounds[OF example_init pc example_fov_lower k kc ki,
        where bxmin = 1 and bymin = 0 and bxmax = 4 and bymax = 4]
      example_fov_upper example_fov_lower y
    by simp
qed

subsection \<open>C8: what the filter returns\<close>

text \<open>
  C8 (as stated, refuted). The claim has the filter return three values for every point
  cloud and box. With its default \<open>return_more=False\<close> the filter returns the filtered
  rows alone.
\<close>

theorem lidar_fov_default_returns_subset_only:
  "get_lidar_in_image_fov_default example_engine [[2, 1, 0], [5, 1, 0]] 0 0 4 4 = Fov [[5, 1, 0]] \<and>
   (\<forall>sub pts_2d fov_inds.
      get_lidar_in_image_fov_default example_engine [[2, 1, 0], [5, 1, 0]] 0 0 4 4 \<noteq>
        FovMore sub pts_2d fov_inds)"
  using fov_more_parts(4)[OF example_fov] by (simp add: get_lidar_in_image_fov_default_def)

text \<open>
  C8 (amended). Called with \<open>return_more=True\<close>, as the frustum extraction calls it, the
  filter returns three values: the filtered rows, the projections of all input points
  (one per input row, unfiltered) and the mask, one entry per input row in input order,
  true exactly where the projection passes the box test and the first coordinate exceeds
  the clip distance; the filtered rows are the input rows at the true entries, in order.
  Without \<open>return_more\<close> it returns the same filtered rows alone.
\<close>

theorem lidar_fov_three_values:
  assumes init: "FrustumProposal_init calibs = Inr self"
    and pc: "\<forall>p\<in>set pc_velo. length p = 3"
  shows "\<exists>sub pts_2d fov_inds.
     get_lidar_in_image_fov self pc_velo xmin ymin xmax ymax True clip =
       FovMore sub pts_2d fov_inds \<and>
     get_lidar_in_image_fov self pc_velo xmin ymin xmax ymax False clip = Fov sub \<and>
     pts_2d = project_velo_to_image self pc_velo \<and>
     length pts_2d = length pc_velo \<and> length fov_inds = length pc_velo \<and>
     (\<forall>k<length pc_velo.
        fov_inds ! k = (box_test (pts_2d ! k) xmin ymin xmax ymax \<and> clip < pc_velo ! k ! 0)) \<and>
     sub = map ((!) pc_velo) (np_nonzero fov_inds)"
proof -
  obtain sub pts_2d fov_inds where
    run: "get_lidar_in_image_fov self pc_velo xmin ymin xmax ymax True clip =
            FovMore sub pts_2d fov_inds"
    using fov_more_exists by blast
  note al = fov_mask_aligned[OF init pc run]
  have "sub = map ((!) pc_velo) (np_nonzero fov_inds)"
    using fov_more_parts(3)[OF run] np_select_nonzero[OF al(2)] by simp
  then show ?thesis
    using run fov_more_parts(1,4)[OF run] al by blast
qed

text \<open>The three values at the example calibration.\<close>

theorem lidar_fov_three_values_witness:
  "get_lidar_in_image_fov example_engine [[2, 1, 0], [5, 1, 0]] 0 0 4 4 True 2 =
     FovMore [[5, 1, 0]] [[Fin 1, Fin (7 / 5)], [Fin 1, Fin (5 / 4)]] [False, True] \<and>
   get_lidar_in_image_fov example_engine [[2, 1, 0], [5, 1, 0]] 0 0 4 4 False 2 = Fov [[5, 1, 0]] \<and>
   project_velo_to_image example_engine [[2, 1, 0], [5, 1, 0]] =
     [[Fin 1, Fin (7 / 5)], [Fin 1, Fin (5 / 4)]] \<and>
   np_nonzero [False, True] = [1]"
proof -
  have pc: "\<forall>p\<in>set [[2, 1, 0], [5, 1, 0::real]]. length p = 3" by simp
  have nz: "np_nonzero [False, True] = [1]" by (simp add: np_nonzero_def upt_conv_Cons)
  show ?thesis
    using lidar_fov_three_values[OF example_init pc, of 0 0 4 4 2] example_fov nz
    by (auto simp: example_projection)
qed

subsection \<open>The loop over the boxes\<close>

lemma frustum_loop_Inr:
  "frustum_loop self pc_rect coord inds boxes ps pv = Inr (rs, vs) \<Longrightarrow>
   \<exists>rs' vs'. rs = ps @ rs' \<and> vs = pv @ vs' \<and> length rs' = length boxes \<and>
     length vs' = length boxes \<and>
     (\<forall>i<length boxes. frustum_for_box self pc_rect coord inds (boxes ! i) = Inr (rs' ! i, vs' ! i))"
proof (induction boxes arbitrary: ps pv)
  case Nil
  then show ?case by simp
next
  case (Cons b bs)
  from Cons.prems obtain r v where
    b: "frustum_for_box self pc_rect coord inds b = Inr (r, v)" and
    rest: "frustum_loop self pc_rect coord inds bs (ps @ [r]) (pv @ [v]) = Inr (rs, vs)"
    by (auto simp: raising_def split: sum.splits)
  from Cons.IH[OF rest] obtain rs' vs' where
    IH: "rs = (ps @ [r]) @ rs'" "vs = (pv @ [v]) @ vs'" "length rs' = length bs"
      "length vs' = length bs"
      "\<forall>i<length bs. frustum_for_box self pc_rect coord inds (bs ! i) = Inr (rs' ! i, vs' ! i)"
    by blast
  have "\<forall>i<length (b # bs).
      frustum_for_box self pc_rect coord inds ((b # bs) ! i) = Inr ((r # rs') ! i, (v # vs') ! i)"
    using b IH(5) by (auto simp: nth_Cons split: nat.splits)
  then show ?case using IH(1-4) by (intro exI[of _ "r # rs'"] exI[of _ "v # vs'"]) simp
qed

lemma get_frustum_proposal_boxes:
  assumes run: "get_frustum_proposal self (h, w, ch) boxes2d pc_velo = Inr (props, props_velo)"
    and fov: "get_lidar_in_image_fov self (map (take 3) pc_velo) 0 0 (real_of_int w)
                (real_of_int h) True 2 = FovMore sub coord inds"
  shows "length props = length boxes2d" and "length props_velo = length boxes2d"
    and "i < length boxes2d \<Longrightarrow>
         frustum_for_box self (pc_rect_of self pc_velo) coord inds (boxes2d ! i) =
           Inr (props ! i, props_velo ! i)"
proof -
  have "frustum_loop self (pc_rect_of self pc_velo) coord inds boxes2d [] [] =
      Inr (props, props_velo)"
    using run fov by (simp add: get_frustum_proposal_def)
  from frustum_loop_Inr[OF this] show "length props = length boxes2d"
    and "length props_velo = length boxes2d"
    and "i < length boxes2d \<Longrightarrow>
         frustum_for_box self (pc_rect_of self pc_velo) coord inds (boxes2d ! i) =
           Inr (props ! i, props_velo ! i)"
    by auto
qed

lemma np_linalg_inv_shape:
  assumes "np_linalg_inv [[a, b, c], [d, e, f], [g, h, i]] = Inr Ri"
  shows "\<exists>a' b' c' d' e' f' g' h' i'. Ri = [[a', b', c'], [d', e', f'], [g', h', i']]"
  using assms by (auto simp: Let_def split: if_splits)

lemma project_rect_to_velo_map:
  assumes init: "FrustumProposal_init calibs = Inr self"
    and ok: "project_rect_to_velo self X = Inr V"
  shows "\<exists>f. (\<forall>q. length (f q) = 3) \<and>
           (\<forall>pts. (\<forall>p\<in>set pts. length p = 3) \<longrightarrow> project_rect_to_velo self pts = Inr (map f pts))"
proof -
  from init_C2V_shape[OF init] obtain a b c d e f g h i j k l where
    C: "C2V self = [[a, b, c, d], [e, f, g, h], [i, j, k, l]]"
    by (elim exE) (rule that)
  from init_R0_shape[OF init] obtain r1 r2 r3 r4 r5 r6 r7 r8 r9 where
    R: "R0 self = [[r1, r2, r3], [r4, r5, r6], [r7, r8, r9]]"
    by (elim exE) (rule that)
  from ok obtain Ri where inv: "np_linalg_inv (R0 self) = Inr Ri"
    by (auto simp: project_rect_to_velo_def project_rect_to_ref_def raising_def split: sum.splits)
  from np_linalg_inv_shape[OF inv[unfolded R]] obtain s1 s2 s3 s4 s5 s6 s7 s8 s9 where
    Ri: "Ri = [[s1, s2, s3], [s4, s5, s6], [s7, s8, s9]]"
    by (elim exE) (rule that)
  let ?v = "\<lambda>p. [a * p ! 0 + b * p ! 1 + c * p ! 2 + d,
               e * p ! 0 + f * p ! 1 + g * p ! 2 + h,
               i * p ! 0 + j * p ! 1 + k * p ! 2 + l]"
  let ?r = "\<lambda>p. [s1 * p ! 0 + s2 * p ! 1 + s3 * p ! 2,
               s4 * p ! 0 + s5 * p ! 1 + s6 * p ! 2,
               s7 * p ! 0 + s8 * p ! 1 + s9 * p ! 2::real]"
  have "project_rect_to_velo self pts = Inr (map (?v \<circ> ?r) pts)"
    if pts: "\<forall>p\<in>set pts. length p = 3" for pts
  proof -
    have "np_transpose (np_dot Ri (np_transpose pts)) = map ?r pts"
      using Ri pts by (rule rows_times)
    then have ref: "project_rect_to_ref self pts = Inr (map ?r pts)"
      by (simp add: project_rect_to_ref_def inv raising_def)
    have "\<forall>q\<in>set (map ?r pts). length q = 3" by simp
    with C have "project_ref_to_velo self (map ?r pts) = map ?v (map ?r pts)"
      by (rule project_ref_to_velo_rows)
    then show ?thesis by (simp add: project_rect_to_velo_def ref raising_def)
  qed
  moreover have "\<forall>q. length ((?v \<circ> ?r) q) = 3" by simp
  ultimately show ?thesis by blast
qed

lemma row_with_aux:
  "length (q::real list) = 3 \<Longrightarrow> take 3 (q @ [x]) = q \<and> (q @ [x]) ! 3 = x \<and> length (q @ [x]) = 4"
  by (simp add: nth_append)

lemma frustum_rows:
  assumes init: "FrustumProposal_init calibs = Inr self"
    and pc: "\<forall>p\<in>set pc_velo. length p = 4"
    and run: "get_frustum_proposal self (h, w, ch) boxes2d pc_velo = Inr (props, props_velo)"
    and fov: "get_lidar_in_image_fov self (map (take 3) pc_velo) 0 0 (real_of_int w)
                (real_of_int h) True 2 = FovMore sub coord inds"
    and i: "i < length boxes2d"
  shows "\<exists>f g. (\<forall>q. length (f q) = 3) \<and> (\<forall>q. length (g q) = 3) \<and>
     (\<forall>pts. (\<forall>p\<in>set pts. length p = 3) \<longrightarrow> project_velo_to_rect self pts = map f pts) \<and>
     (\<forall>pts. (\<forall>p\<in>set pts. length p = 3) \<longrightarrow> project_rect_to_velo self pts = Inr (map g pts)) \<and>
     pc_rect_of self pc_velo = map (\<lambda>p. f (take 3 p) @ [p ! 3]) pc_velo \<and>
     length (box_fov_inds_of coord inds (boxes2d ! i)) = length pc_velo \<and>
     props ! i = map (\<lambda>k. f (take 3 (pc_velo ! k)) @ [pc_velo ! k ! 3])
                   (np_nonzero (box_fov_inds_of coord inds (boxes2d ! i))) \<and>
     props_velo ! i = map (\<lambda>k. g (f (take 3 (pc_velo ! k))) @ [pc_velo ! k ! 3])
                   (np_nonzero (box_fov_inds_of coord inds (boxes2d ! i)))"
proof -
  let ?pts = "map (take 3) pc_velo"
  let ?m = "box_fov_inds_of coord inds (boxes2d ! i)"
  have pts3: "\<forall>p\<in>set ?pts. length p = 3" using pc by simp
  from project_velo_to_rect_map[OF init] obtain f where
    f3: "\<forall>q. length (f q) = 3" and
    f: "\<forall>pts. (\<forall>p\<in>set pts. length p = 3) \<longrightarrow> project_velo_to_rect self pts = map f pts"
    by blast
  have rect: "pc_rect_of self pc_velo = map (\<lambda>p. f (take 3 p) @ [p ! 3]) pc_velo"
    using f pts3 by (simp add: pc_rect_of_def zip_map1 zip_same_conv_map comp_def)
  have lc: "length coord = length pc_velo" and li: "length inds = length pc_velo"
    using fov_mask_aligned(1,2)[OF init pts3 fov] by simp_all
  have lm: "length ?m = length pc_velo"
    using lc li by (cases "boxes2d ! i") (simp add: box_fov_inds_of_def)
  let ?sel = "np_select (pc_rect_of self pc_velo) ?m"
  have sel: "?sel = map (\<lambda>k. f (take 3 (pc_velo ! k)) @ [pc_velo ! k ! 3]) (np_nonzero ?m)"
  proof -
    have "?sel = map ((!) (pc_rect_of self pc_velo)) (np_nonzero ?m)"
      by (rule np_select_nonzero) (simp add: lm rect)
    also have "\<dots> = map (\<lambda>k. f (take 3 (pc_velo ! k)) @ [pc_velo ! k ! 3]) (np_nonzero ?m)"
      by (rule map_cong[OF refl]) (simp add: np_nonzero_set lm rect)
    finally show ?thesis .
  qed
  have box: "frustum_for_box self (pc_rect_of self pc_velo) coord inds (boxes2d ! i) =
      Inr (props ! i, props_velo ! i)"
    using run fov i by (rule get_frustum_proposal_boxes(3))
  then have p: "props ! i = ?sel" and
    v: "pc_in_velo_fov_of self ?sel = Inr (props_velo ! i)"
    by (auto simp: frustum_for_box_def Let_def raising_def split: sum.splits)
  from v obtain velo where
    velo: "project_rect_to_velo self (map (take 3) ?sel) = Inr velo" and
    pv: "props_velo ! i = map2 (\<lambda>v r. v @ [r ! 3]) velo ?sel"
    by (auto simp: pc_in_velo_fov_of_def raising_def split: sum.splits)
  from project_rect_to_velo_map[OF init velo] obtain g where
    g3: "\<forall>q. length (g q) = 3" and
    g: "\<forall>pts. (\<forall>p\<in>set pts. length p = 3) \<longrightarrow> project_rect_to_velo self pts = Inr (map g pts)"
    by blast
  have sel3: "\<forall>p\<in>set (map (take 3) ?sel). length p = 3"
    using f3 by (simp add: sel)
  have "velo = map g (map (take 3) ?sel)"
    using g sel3 velo by simp
  then have "props_velo ! i = map (\<lambda>r. g (take 3 r) @ [r ! 3]) ?sel"
    by (simp add: pv zip_map1 zip_same_conv_map comp_def)
  also have "\<dots> = map (\<lambda>k. g (f (take 3 (pc_velo ! k))) @ [pc_velo ! k ! 3]) (np_nonzero ?m)"
    using f3 by (simp add: sel comp_def nth_append)
  finally have pvi: "props_velo ! i =
     map (\<lambda>k. g (f (take 3 (pc_velo ! k))) @ [pc_velo ! k ! 3]) (np_nonzero ?m)" .
  have pri: "props ! i =
     map (\<lambda>k. f (take 3 (pc_velo ! k)) @ [pc_velo ! k ! 3]) (np_nonzero ?m)"
    using p sel by simp
  show ?thesis
    by (intro exI[of _ f] exI[of _ g] conjI) (rule f3 g3 f g rect lm pri pvi)+
qed

lemma project_rect_to_velo_det:
  assumes init: "FrustumProposal_init calibs = Inr self"
    and ok: "project_rect_to_velo self X = Inr V"
  shows "det3 (R0 self) \<noteq> 0"
proof -
  from init_R0_shape[OF init] obtain r1 r2 r3 r4 r5 r6 r7 r8 r9 where
    R: "R0 self = [[r1, r2, r3], [r4, r5, r6], [r7, r8, r9]]"
    by (elim exE) (rule that)
  from ok obtain Ri where "np_linalg_inv (R0 self) = Inr Ri"
    by (auto simp: project_rect_to_velo_def project_rect_to_ref_def raising_def split: sum.splits)
  then show ?thesis unfolding R by (auto simp: Let_def split: if_splits)
qed

lemma row_rebuild: "length (p::real list) = 4 \<Longrightarrow> take 3 p @ [p ! 3] = p"
proof -
  assume "length p = 4"
  then obtain x y z w where "p = [x, y, z, w]" using len4 by blast
  then show ?thesis by simp
qed

subsection \<open>The extraction at the example calibration\<close>

lemma example_cloud_projection:
  "project_velo_to_image example_engine [[2, 1, 0], [5, 1, 0], [6, -1, 0]] =
     [[Fin 1, Fin (7 / 5)], [Fin 1, Fin (5 / 4)], [Fin (11 / 9), Fin (11 / 9)]]"
  by (simp add: example_engine_def project_defs np_defs fl_div_def upt_conv_Cons)

lemma example_cloud_fov:
  "get_lidar_in_image_fov example_engine (map (take 3) example_cloud) 0 0 (real_of_int 4)
     (real_of_int 4) True 2 =
     FovMore [[5, 1, 0], [6, -1, 0]]
       [[Fin 1, Fin (7 / 5)], [Fin 1, Fin (5 / 4)], [Fin (11 / 9), Fin (11 / 9)]]
       [False, True, True]"
  by (simp add: example_cloud_def get_lidar_in_image_fov_def example_cloud_projection
      box_test_def fl_lt_def fl_ge_def np_select_def)

lemma example_cloud_rect:
  "pc_rect_of example_engine example_cloud = [[0, 2, 10, 9], [0, 2, 16, 8], [2, 2, 18, 7]]"
  by (simp add: example_cloud_def pc_rect_of_def example_engine_def project_defs np_defs
      upt_conv_Cons)

lemma example_to_velo_1:
  "project_rect_to_velo example_engine [[0, 2, 16], [2, 2, 18]] = Inr [[5, 1, 0], [6, -1, 0]]"
  by (simp add: example_engine_def project_defs np_defs raising_def Let_def upt_conv_Cons)

lemma example_to_velo_2:
  "project_rect_to_velo example_engine [[2, 2, 18]] = Inr [[6, -1, 0]]"
  by (simp add: example_engine_def project_defs np_defs raising_def Let_def upt_conv_Cons)

lemma example_masks:
  "box_fov_inds_of [[Fin 1, Fin (7 / 5)], [Fin 1, Fin (5 / 4)], [Fin (11 / 9), Fin (11 / 9)]]
     [False, True, True] (0, 0, 4, 4) = [False, True, True]"
  "box_fov_inds_of [[Fin 1, Fin (7 / 5)], [Fin 1, Fin (5 / 4)], [Fin (11 / 9), Fin (11 / 9)]]
     [False, True, True] (6 / 5, 0, 4, 4) = [False, False, True]"
  by (simp_all add: box_fov_inds_of_def box_test_def fl_lt_def fl_ge_def)

lemma example_run:
  "get_frustum_proposal example_engine (4, 4, 3) example_boxes example_cloud =
     Inr ([[[0, 2, 16, 8], [2, 2, 18, 7]], [[2, 2, 18, 7]]],
          [[[5, 1, 0, 8], [6, -1, 0, 7]], [[6, -1, 0, 7]]])"
  using example_cloud_fov
  by (simp add: get_frustum_proposal_def example_cloud_rect example_boxes_def
      frustum_for_box_def example_masks np_select_def pc_in_velo_fov_of_def
      example_to_velo_1 example_to_velo_2 raising_def)

lemma example_cloud_rows: "\<forall>p\<in>set example_cloud. length p = 4"
  by (simp add: example_cloud_def)

subsection \<open>C2: the two subsets of a box correspond row by row\<close>



subsection \<open>C9: output order\<close>

text \<open>
  C9. The extraction is a function of its inputs, and it preserves order. When it returns,
  pair i belongs to box i: its rectified-frame subset is the rows of \<open>pc_rect\<close> at the
  indices \<open>ks\<close> kept by the mask of box i, in ascending index order, so row j of both
  subsets comes from point \<open>ks ! j\<close> of the cloud (its rectified coordinates and its
  fourth value; the fourth value again in the sensor-frame subset). When \<open>V2C\<close> is rigid
  the sensor-frame subset is the rows of the point cloud itself at \<open>ks\<close>, in that order.
\<close>

theorem order_preservation:
  assumes init: "FrustumProposal_init calibs = Inr self"
    and pc: "\<forall>p\<in>set pc_velo. length p = 4"
    and run: "get_frustum_proposal self (h, w, ch) boxes2d pc_velo = Inr (props, props_velo)"
    and fov: "get_lidar_in_image_fov self (map (take 3) pc_velo) 0 0 (real_of_int w)
                (real_of_int h) True 2 = FovMore sub coord inds"
    and i: "i < length boxes2d"
    and ks: "ks = np_nonzero (box_fov_inds_of coord inds (boxes2d ! i))"
  shows "length props = length boxes2d \<and> length props_velo = length boxes2d \<and>
     sorted_wrt (<) ks \<and>
     (\<forall>k. k \<in> set ks \<longleftrightarrow>
        k < length pc_velo \<and> box_fov_inds_of coord inds (boxes2d ! i) ! k) \<and>
     props ! i = map ((!) (pc_rect_of self pc_velo)) ks \<and>
     length (props_velo ! i) = length ks \<and>
     (\<forall>j<length ks.
        project_velo_to_rect self [take 3 (pc_velo ! (ks ! j))] = [take 3 (props ! i ! j)] \<and>
        props ! i ! j ! 3 = pc_velo ! (ks ! j) ! 3 \<and>
        props_velo ! i ! j ! 3 = pc_velo ! (ks ! j) ! 3) \<and>
     (rigid (V2C self) \<longrightarrow> props_velo ! i = map ((!) pc_velo) ks)"
proof -
  let ?m = "box_fov_inds_of coord inds (boxes2d ! i)"
  from frustum_rows[OF init pc run fov i] obtain f g where
    f3: "\<forall>q. length (f q) = 3" and g3: "\<forall>q. length (g q) = 3" and
    f: "\<forall>pts. (\<forall>p\<in>set pts. length p = 3) \<longrightarrow> project_velo_to_rect self pts = map f pts" and
    g: "\<forall>pts. (\<forall>p\<in>set pts. length p = 3) \<longrightarrow> project_rect_to_velo self pts = Inr (map g pts)" and
    rect: "pc_rect_of self pc_velo = map (\<lambda>p. f (take 3 p) @ [p ! 3]) pc_velo" and
    lm: "length ?m = length pc_velo" and
    p: "props ! i = map (\<lambda>k. f (take 3 (pc_velo ! k)) @ [pc_velo ! k ! 3]) ks" and
    v: "props_velo ! i = map (\<lambda>k. g (f (take 3 (pc_velo ! k))) @ [pc_velo ! k ! 3]) ks"
    unfolding ks by blast
  have lens: "length props = length boxes2d \<and> length props_velo = length boxes2d"
    using get_frustum_proposal_boxes(1,2)[OF run fov] by simp
  have sorted: "sorted_wrt (<) ks" unfolding ks by (rule np_nonzero_sorted)
  have mem: "\<forall>k. k \<in> set ks \<longleftrightarrow> k < length pc_velo \<and> ?m ! k"
    by (simp add: ks np_nonzero_set lm)
  have sel: "props ! i = map ((!) (pc_rect_of self pc_velo)) ks"
    unfolding p by (rule map_cong[OF refl]) (use mem in \<open>simp add: rect\<close>)
  have lv: "length (props_velo ! i) = length ks" by (simp add: v)
  have rows: "project_velo_to_rect self [take 3 (pc_velo ! (ks ! j))] = [take 3 (props ! i ! j)] \<and>
        props ! i ! j ! 3 = pc_velo ! (ks ! j) ! 3 \<and>
        props_velo ! i ! j ! 3 = pc_velo ! (ks ! j) ! 3" if j: "j < length ks" for j
  proof -
    let ?p = "pc_velo ! (ks ! j)"
    have "ks ! j \<in> set ks" using j by simp
    then have "ks ! j < length pc_velo" using mem by blast
    then have p4: "length ?p = 4" using pc by simp
    have "\<forall>q\<in>set [take 3 ?p]. length q = 3" using p4 by simp
    with f have 1: "project_velo_to_rect self [take 3 ?p] = map f [take 3 ?p]" by blast
    have q3: "length (f (take 3 ?p)) = 3" and gq3: "length (g (f (take 3 ?p))) = 3"
      using f3 g3 by simp_all
    show ?thesis
      using 1 j row_with_aux[OF q3] row_with_aux[OF gq3] by (simp add: p v)
  qed
  have rig: "props_velo ! i = map ((!) pc_velo) ks" if r: "rigid (V2C self)"
  proof -
    have "\<forall>p\<in>set ([]::mat). length p = 3" by simp
    with g have "project_rect_to_velo self [] = Inr (map g [])" by blast
    with init have det: "det3 (R0 self) \<noteq> 0" by (rule project_rect_to_velo_det)
    have inv: "g (f q) = q" if q: "length q = 3" for q
    proof -
      have q1: "\<forall>p\<in>set [q]. length p = 3" using q by simp
      have "project_rect_to_velo self (project_velo_to_rect self [q]) = Inr [q]"
        using init r det q1 by (rule rect_velo_inverse)
      moreover have "project_velo_to_rect self [q] = [f q]" using f q1 by simp
      moreover have "project_rect_to_velo self [f q] = Inr [g (f q)]" using g f3 by simp
      ultimately show ?thesis by simp
    qed
    show ?thesis unfolding v
    proof (rule map_cong[OF refl])
      fix k assume "k \<in> set ks"
      then have "k < length pc_velo" using mem by blast
      then have p4: "length (pc_velo ! k) = 4" using pc by simp
      then have "g (f (take 3 (pc_velo ! k))) = take 3 (pc_velo ! k)" by (simp add: inv)
      then show "g (f (take 3 (pc_velo ! k))) @ [pc_velo ! k ! 3] = pc_velo ! k"
        using row_rebuild[OF p4] by simp
    qed
  qed
  show ?thesis using lens sorted mem sel lv rows rig by blast
qed

text \<open>The kept indices and the gathered rows at the example calibration.\<close>

theorem order_preservation_witness:
  "get_frustum_proposal example_engine (4, 4, 3) example_boxes example_cloud =
     Inr ([[[0, 2, 16, 8], [2, 2, 18, 7]], [[2, 2, 18, 7]]],
          [[[5, 1, 0, 8], [6, -1, 0, 7]], [[6, -1, 0, 7]]]) \<and>
   np_nonzero [False, True, True] = [1, 2] \<and> np_nonzero [False, False, True] = [2] \<and>
   map ((!) example_cloud) [1, 2] = [[5, 1, 0, 8], [6, -1, 0, 7]] \<and>
   map ((!) example_cloud) [2] = [[6, -1, 0, 7]] \<and>
   map ((!) (pc_rect_of example_engine example_cloud)) [1, 2] = [[0, 2, 16, 8], [2, 2, 18, 7]]"
proof -
  have i0: "0 < length example_boxes" and i1: "1 < length example_boxes"
    by (simp_all add: example_boxes_def)
  have k0: "[1, 2] = np_nonzero (box_fov_inds_of
      [[Fin 1, Fin (7 / 5)], [Fin 1, Fin (5 / 4)], [Fin (11 / 9), Fin (11 / 9)]]
      [False, True, True] (example_boxes ! 0))"
    by (simp add: example_boxes_def example_masks np_nonzero_def upt_conv_Cons)
  have k1: "[2] = np_nonzero (box_fov_inds_of
      [[Fin 1, Fin (7 / 5)], [Fin 1, Fin (5 / 4)], [Fin (11 / 9), Fin (11 / 9)]]
      [False, True, True] (example_boxes ! 1))"
    by (simp add: example_boxes_def example_masks np_nonzero_def upt_conv_Cons)
  have nz: "np_nonzero [False, True, True] = [1, 2] \<and> np_nonzero [False, False, True] = [2]"
    by (simp add: np_nonzero_def upt_conv_Cons)
  have cl: "map ((!) example_cloud) [1, 2] = [[5, 1, 0, 8], [6, -1, 0, 7]] \<and>
      map ((!) example_cloud) [2] = [[6, -1, 0, 7]]"
    by (simp add: example_cloud_def)
  show ?thesis
    using order_preservation[OF example_init example_cloud_rows example_run example_cloud_fov
        i0 k0]
      order_preservation[OF example_init example_cloud_rows example_run example_cloud_fov
        i1 k1] example_run nz cl example_rigid
    by simp
qed

subsection \<open>The scenario evaluated\<close>

lemma scenario_engine:
  "FrustumProposal_init scenario_calibs =
     Inr \<lparr>P = [[1, 0, 0, 0], [0, 1, 0, 0], [0, 0, 1, 0]],
          V2C = [[1, 0, 0, 0], [0, 1, 0, 0], [0, 0, 1, 0]],
          C2V = [[1, 0, 0, 0], [0, 1, 0, 0], [0, 0, 1, 0]],
          R0 = [[1, 0, 0], [0, 1, 0], [0, 0, 1]]\<rparr>"
  by (simp add: scenario_calibs_def init_defs np_defs upt_conv_Cons)

lemma scenario_projection:
  "project_velo_to_image
     \<lparr>P = [[1, 0, 0, 0], [0, 1, 0, 0], [0, 0, 1, 0]],
      V2C = [[1, 0, 0, 0], [0, 1, 0, 0], [0, 0, 1, 0]],
      C2V = [[1, 0, 0, 0], [0, 1, 0, 0], [0, 0, 1, 0]],
      R0 = [[1, 0, 0], [0, 1, 0], [0, 0, 1]]\<rparr> [[5, 0, 0]] = [[PInf, NaN]]"
  by (simp add: project_defs np_defs fl_div_def upt_conv_Cons)

subsection \<open>C7: the scenario with one point on the sensor's forward axis\<close>

text \<open>
  C7 (as stated, refuted). The claim expects both subsets of the box \<open>[0, 0, 50, 50]\<close> to
  hold the single point \<open>[5, 0, 0, 1.0]\<close>. The point has rectified depth 0 (the third
  coordinate), so its perspective divide is (inf, nan), not pixel (0, 0), and the run does
  not return that pair of subsets.
\<close>

theorem scenario_point_not_returned:
  "scenario_run [(0, 0, 50, 50)] [[5, 0, 0, 1]]
     \<noteq> Inr ([[[5, 0, 0, 1]]], [[[5, 0, 0, 1]]])"
  by (simp add: scenario_run_def scenario_engine scenario_projection raising_def fov_defs
      project_defs np_defs upt_conv_Cons)

text \<open>
  C7 (amended). With the calibration, image shape, box and point cloud of the scenario the
  extraction succeeds and returns, for that box, an empty rectified-frame subset and an
  empty sensor-frame subset.
\<close>

theorem scenario_point_excluded:
  "scenario_run [(0, 0, 50, 50)] [[5, 0, 0, 1]] = Inr ([[]], [[]])"
  by (simp add: scenario_run_def scenario_engine scenario_projection raising_def fov_defs
      project_defs np_defs upt_conv_Cons)

end
